theory Spec2Isabelle
  imports Complex_Main "HOL-Library.Sublist"
begin

section \<open>ECMAScript Number values\<close>

text \<open>
  Every quantity of \<^verbatim>\<open>reports.ts\<close> is a TypeScript \<^verbatim>\<open>number\<close>: an IEEE 754 binary64
  value. A finite value is kept as the rational it denotes; the two zeros, the two
  infinities and NaN are values of their own (\<open>Fin 0\<close> is \<open>+0\<close>). Every arithmetic
  operation computes the exact rational result and rounds it to the nearest binary64 value,
  ties to even, as the language does; nothing is idealised to real arithmetic, because
  the comparisons of the report depend on the rounding (\<open>1100000 / 1000000 * 100\<close> is
  \<open>110.00000000000001\<close>).
\<close>

datatype number = Fin rat | NegZero | PosInf | NegInf | NaN

fun ilog2 :: "nat \<Rightarrow> nat" where
  "ilog2 n = (if n < 2 then 0 else 1 + ilog2 (n div 2))"

declare ilog2.simps [simp del]

definition clog2 :: "nat \<Rightarrow> nat" where
  "clog2 n = (if n \<le> 1 then 0 else 1 + ilog2 (n - 1))"

definition pow2 :: "int \<Rightarrow> rat" where
  "pow2 k = (if 0 \<le> k then 2 ^ nat k else 1 / 2 ^ nat (- k))"

text \<open>The binary exponent of a positive rational: \<open>2 ^ exponent x \<le> x < 2 ^ (exponent x + 1)\<close>.\<close>

definition exponent :: "rat \<Rightarrow> int" where
  "exponent x =
     (if 1 \<le> x then int (ilog2 (nat \<lfloor>x\<rfloor>)) else - int (clog2 (nat \<lceil>1 / x\<rceil>)))"

definition round_half_even :: "rat \<Rightarrow> int" where
  "round_half_even x =
     (let f = \<lfloor>x\<rfloor>; d = x - of_int f
      in if d < 1 / 2 then f else if 1 / 2 < d then f + 1 else if even f then f else f + 1)"

text \<open>
  Rounding a positive rational to 53 significant bits; below the normal range the
  quantum stays at \<open>2 ^ - 1074\<close> (subnormal values).
\<close>

definition round64 :: "rat \<Rightarrow> rat" where
  "round64 x =
     (let q = max (exponent x - 52) (- 1074)
      in of_int (round_half_even (x / pow2 q)) * pow2 q)"

text \<open>The Number value of a sign and an exact magnitude \<open>x \<ge> 0\<close>.\<close>

definition fl :: "bool \<Rightarrow> rat \<Rightarrow> number" where
  "fl neg x =
     (let r = (if x = 0 then 0 else round64 x)
      in if 2 ^ 1024 \<le> r then (if neg then NegInf else PosInf)
         else if r = 0 then (if neg then NegZero else Fin 0)
         else Fin (if neg then - r else r))"

text \<open>The Number a decimal literal of the source or of a JSON document denotes.\<close>

definition js_lit :: "rat \<Rightarrow> number" where
  "js_lit q = fl (q < 0) \<bar>q\<bar>"

fun signbit :: "number \<Rightarrow> bool" where
  "signbit (Fin q) = (q < 0)"
| "signbit NegZero = True"
| "signbit PosInf = False"
| "signbit NegInf = True"
| "signbit NaN = False"

fun is_zero :: "number \<Rightarrow> bool" where
  "is_zero (Fin q) = (q = 0)"
| "is_zero NegZero = True"
| "is_zero _ = False"

fun is_inf :: "number \<Rightarrow> bool" where
  "is_inf PosInf = True"
| "is_inf NegInf = True"
| "is_inf _ = False"

fun is_finite :: "number \<Rightarrow> bool" where
  "is_finite (Fin q) = True"
| "is_finite NegZero = True"
| "is_finite _ = False"

fun val :: "number \<Rightarrow> rat" where
  "val (Fin q) = q"
| "val _ = 0"

definition signed_inf :: "bool \<Rightarrow> number" where
  "signed_inf neg = (if neg then NegInf else PosInf)"

definition signed_zero :: "bool \<Rightarrow> number" where
  "signed_zero neg = (if neg then NegZero else Fin 0)"

text \<open>The operators \<^verbatim>\<open>/\<close>, \<^verbatim>\<open>*\<close>, \<^verbatim>\<open>-\<close> and \<^verbatim>\<open>%\<close> on Numbers.\<close>

definition js_div :: "number \<Rightarrow> number \<Rightarrow> number" where
  "js_div a b =
     (if a = NaN \<or> b = NaN then NaN
      else if is_inf a then (if is_inf b then NaN else signed_inf (signbit a \<noteq> signbit b))
      else if is_inf b then signed_zero (signbit a \<noteq> signbit b)
      else if is_zero b then (if is_zero a then NaN else signed_inf (signbit a \<noteq> signbit b))
      else fl (signbit a \<noteq> signbit b) (\<bar>val a\<bar> / \<bar>val b\<bar>))"

definition js_mul :: "number \<Rightarrow> number \<Rightarrow> number" where
  "js_mul a b =
     (if a = NaN \<or> b = NaN then NaN
      else if is_inf a \<or> is_inf b
        then (if is_zero a \<or> is_zero b then NaN else signed_inf (signbit a \<noteq> signbit b))
      else fl (signbit a \<noteq> signbit b) (\<bar>val a\<bar> * \<bar>val b\<bar>))"

definition js_sub :: "number \<Rightarrow> number \<Rightarrow> number" where
  "js_sub a b =
     (if a = NaN \<or> b = NaN then NaN
      else if is_inf a then (if b = a then NaN else a)
      else if is_inf b then signed_inf (\<not> signbit b)
      else let d = val a - val b
           in if d = 0 then (if a = NegZero \<and> b = Fin 0 then NegZero else Fin 0)
              else fl (d < 0) \<bar>d\<bar>)"

definition js_mod :: "number \<Rightarrow> number \<Rightarrow> number" where
  "js_mod a b =
     (if a = NaN \<or> b = NaN \<or> is_inf a \<or> is_zero b then NaN
      else if is_inf b \<or> is_zero a then a
      else let r = \<bar>val a\<bar> - \<bar>val b\<bar> * of_int \<lfloor>\<bar>val a\<bar> / \<bar>val b\<bar>\<rfloor>
           in if r = 0 then signed_zero (signbit a)
              else Fin (if signbit a then - r else r))"

text \<open>\<^verbatim>\<open>Math.abs\<close> and \<^verbatim>\<open>Math.trunc\<close>.\<close>

fun js_abs :: "number \<Rightarrow> number" where
  "js_abs (Fin q) = Fin \<bar>q\<bar>"
| "js_abs NegZero = Fin 0"
| "js_abs PosInf = PosInf"
| "js_abs NegInf = PosInf"
| "js_abs NaN = NaN"

fun js_trunc :: "number \<Rightarrow> number" where
  "js_trunc (Fin q) =
     (if 0 \<le> q then Fin (of_int \<lfloor>q\<rfloor>)
      else if \<lceil>q\<rceil> = 0 then NegZero else Fin (of_int \<lceil>q\<rceil>))"
| "js_trunc x = x"

text \<open>The comparisons \<^verbatim>\<open><\<close> and \<^verbatim>\<open>>\<close>: false whenever an operand is NaN.\<close>

fun js_lt :: "number \<Rightarrow> number \<Rightarrow> bool" where
  "js_lt NaN _ = False"
| "js_lt _ NaN = False"
| "js_lt PosInf _ = False"
| "js_lt _ NegInf = False"
| "js_lt NegInf _ = True"
| "js_lt _ PosInf = True"
| "js_lt a b = (val a < val b)"

definition js_gt :: "number \<Rightarrow> number \<Rightarrow> bool" where
  "js_gt a b = js_lt b a"

text \<open>The truth value of a Number in a condition: \<open>0\<close>, \<open>-0\<close> and NaN are false.\<close>

definition js_truthy :: "number \<Rightarrow> bool" where
  "js_truthy x = (\<not> is_zero x \<and> x \<noteq> NaN)"

section \<open>Numbers as text\<close>

definition digit :: "nat \<Rightarrow> char" where
  "digit d = ''0123456789'' ! d"

fun show_nat :: "nat \<Rightarrow> string" where
  "show_nat n = (if n < 10 then [digit n] else show_nat (n div 10) @ [digit (n mod 10)])"

declare show_nat.simps [simp del]

text \<open>
  \<^verbatim>\<open>Number.prototype.toFixed\<close> (ECMA-262, 21.1.3.3) for a magnitude below \<open>10 ^ 21\<close>:
  \<open>n\<close> is the integer nearest to \<open>x * 10 ^ f\<close> (the larger of two), written with at
  least \<open>f + 1\<close> digits and a point before the last \<open>f\<close>.
\<close>

definition fixed_digits :: "nat \<Rightarrow> nat \<Rightarrow> string" where
  "fixed_digits n f =
     (let m = show_nat n
      in if f = 0 then m
         else let m' = replicate (f + 1 - length m) (CHR ''0'') @ m; k = length m'
              in take (k - f) m' @ ''.'' @ drop (k - f) m')"

definition round_half_up :: "rat \<Rightarrow> nat" where
  "round_half_up y = nat \<lfloor>y + 1 / 2\<rfloor>"

text \<open>
  \<^verbatim>\<open>Number::toString\<close> (ECMA-262, 6.1.6.1.20) on a positive finite value: the digits
  \<open>s\<close> (\<open>k\<close> of them, as few as possible) and the decimal exponent \<open>n\<close> with
  \<open>s * 10 ^ (n - k)\<close> rounding to the value; of two candidates the nearer, then the even one.
\<close>

fun ilog10 :: "nat \<Rightarrow> nat" where
  "ilog10 n = (if n < 10 then 0 else 1 + ilog10 (n div 10))"

declare ilog10.simps [simp del]

definition clog10 :: "nat \<Rightarrow> nat" where
  "clog10 n = (if n \<le> 1 then 0 else 1 + ilog10 (n - 1))"

definition pow10 :: "int \<Rightarrow> rat" where
  "pow10 k = (if 0 \<le> k then 10 ^ nat k else 1 / 10 ^ nat (- k))"

definition exponent10 :: "rat \<Rightarrow> int" where
  "exponent10 x =
     (if 1 \<le> x then int (ilog10 (nat \<lfloor>x\<rfloor>)) else - int (clog10 (nat \<lceil>1 / x\<rceil>)))"

definition digits_k :: "rat \<Rightarrow> nat \<Rightarrow> bool \<Rightarrow> (nat \<times> int) option" where
  "digits_k x k force =
     (let n = exponent10 x + 1; u = pow10 (n - int k);
          lo = nat \<lfloor>x / u\<rfloor>; hi = lo + 1;
          ok_lo = (force \<or> fl False (of_nat lo * u) = Fin x);
          ok_hi = (force \<or> fl False (of_nat hi * u) = Fin x);
          dl = x - of_nat lo * u; dh = of_nat hi * u - x;
          up = (if hi = 10 ^ k then (10 ^ (k - 1), n + 1) else (hi, n))
      in if ok_lo \<and> ok_hi
         then (if dl < dh \<or> (dl = dh \<and> even lo) then Some (lo, n) else Some up)
         else if ok_lo then Some (lo, n)
         else if ok_hi then Some up
         else None)"

function shortest :: "rat \<Rightarrow> nat \<Rightarrow> nat \<times> nat \<times> int" where
  "shortest x k =
     (case digits_k x k (17 \<le> k) of
        Some (s, n) \<Rightarrow> (k, s, n)
      | None \<Rightarrow> shortest x (k + 1))"
  by pat_completeness auto
termination
proof (relation "measure (\<lambda>(x, k). 17 - k)")
  show "wf (measure (\<lambda>(x, k). 17 - k))" by simp
next
  fix x :: rat and k :: nat
  assume "digits_k x k (17 \<le> k) = None"
  then have "\<not> 17 \<le> k"
    by (auto simp: digits_k_def Let_def split: if_splits)
  then show "((x, k + 1), (x, k)) \<in> measure (\<lambda>(x, k). 17 - k)" by simp
qed

declare shortest.simps [simp del]

definition show_exp :: "int \<Rightarrow> string" where
  "show_exp e = (if e < 0 then ''-'' else ''+'') @ show_nat (nat \<bar>e\<bar>)"

definition show_pos :: "rat \<Rightarrow> string" where
  "show_pos x =
     (case shortest x 1 of (k, s, n) \<Rightarrow>
        let ds = show_nat s
        in if int k \<le> n \<and> n \<le> 21 then ds @ replicate (nat (n - int k)) (CHR ''0'')
           else if 0 < n \<and> n \<le> 21 then take (nat n) ds @ ''.'' @ drop (nat n) ds
           else if - 6 < n \<and> n \<le> 0 then ''0.'' @ replicate (nat (- n)) (CHR ''0'') @ ds
           else if k = 1 then ds @ ''e'' @ show_exp (n - 1)
           else take 1 ds @ ''.'' @ drop 1 ds @ ''e'' @ show_exp (n - 1))"

text \<open>\<^verbatim>\<open>Number::toString\<close>: what a template literal \<^verbatim>\<open>${x}\<close> prints.\<close>

fun numToString :: "number \<Rightarrow> string" where
  "numToString NaN = ''NaN''"
| "numToString NegZero = ''0''"
| "numToString PosInf = ''Infinity''"
| "numToString NegInf = ''-Infinity''"
| "numToString (Fin q) =
     (if q = 0 then ''0'' else if q < 0 then ''-'' @ show_pos (- q) else show_pos q)"

text \<open>\<^verbatim>\<open>x.toFixed(f)\<close> for \<open>0 \<le> f \<le> 100\<close> (the source passes 0, 1, 2 and 3).\<close>

fun toFixed :: "number \<Rightarrow> nat \<Rightarrow> string" where
  "toFixed (Fin q) f =
     (if q < 0 then ''-'' else []) @
     (if 10 ^ 21 \<le> \<bar>q\<bar> then numToString (Fin \<bar>q\<bar>)
      else fixed_digits (round_half_up (\<bar>q\<bar> * 10 ^ f)) f)"
| "toFixed NegZero f = fixed_digits 0 f"
| "toFixed x f = numToString x"

section \<open>The derivation layer of \<^verbatim>\<open>reports.ts\<close>\<close>

definition BYTES_TO_KiB :: number where
  "BYTES_TO_KiB = Fin 1024"

definition BYTES_TO_MiB :: number where
  "BYTES_TO_MiB = js_mul (Fin 1024) (Fin 1024)"

definition BYTES_TO_GiB :: number where
  "BYTES_TO_GiB = js_mul (js_mul (Fin 1024) (Fin 1024)) (Fin 1024)"

definition toPercent :: "number \<Rightarrow> number \<Rightarrow> string" where
  "toPercent part total' = toFixed (js_mul (js_div part total') (Fin 100)) 3 @ ''%''"

definition getDiffPercent :: "number \<Rightarrow> number \<Rightarrow> string" where
  "getDiffPercent baseValue recentValue =
     (let sign = (if js_lt recentValue baseValue then ''-'' else ''+'')
      in sign @
         toFixed (js_mul (js_div (js_abs (js_sub recentValue baseValue)) baseValue) (Fin 100)) 3 @
         ''%'')"

definition bytesToHuman :: "number \<Rightarrow> string" where
  "bytesToHuman bytes =
     (if js_lt (js_abs bytes) BYTES_TO_KiB then toFixed bytes 2 @ ''B''
      else if js_lt (js_abs bytes) BYTES_TO_MiB then toFixed (js_div bytes BYTES_TO_KiB) 2 @ ''KB''
      else if js_lt (js_abs bytes) BYTES_TO_GiB then toFixed (js_div bytes BYTES_TO_MiB) 2 @ ''MB''
      else toFixed (js_div bytes BYTES_TO_GiB) 2 @ ''GB'')"

definition secondsToHuman :: "number \<Rightarrow> string" where
  "secondsToHuman seconds =
     (if js_lt seconds (Fin 60) then toFixed seconds 1 @ ''s''
      else numToString (js_trunc (js_div seconds (Fin 60))) @ ''m '' @
           numToString (js_trunc (js_mod seconds (Fin 60))) @ ''s'')"

definition normalizeValue :: "number \<Rightarrow> number \<Rightarrow> string" where
  "normalizeValue value baseValue = toFixed (js_mul (js_div value baseValue) (Fin 100)) 0"

section \<open>The telemetry model\<close>

text \<open>
  The interfaces \<^verbatim>\<open>AnalysisResult\<close>, \<^verbatim>\<open>GeneralInfo\<close>, \<^verbatim>\<open>analysisResults\<close> and
  \<^verbatim>\<open>BuildOutput\<close>. An optional property is an \<open>option\<close> (\<open>None\<close>: the property is
  absent), and so is a property of type \<^verbatim>\<open>string | null\<close>. The nested objects of
  \<^verbatim>\<open>image_details\<close> and \<^verbatim>\<open>resource_usage\<close> are flattened, a field being named by its
  path (\<^verbatim>\<open>code_area.bytes\<close> is \<open>code_area_bytes\<close>); an optional object with one property
  is the option of that property.
\<close>

record AnalysisResult =
  total' :: number
  reachable :: number
  reflection :: number
  jni :: number

record graal_compiler =
  optimization_level :: string
  march :: string
  pgo :: "string list option"

record GeneralInfo =
  name :: string
  graalvm_version :: string
  java_version :: "string option"
  vendor_version :: "string option"
  c_compiler :: "string option"
  garbage_collector :: string
  graal_compiler :: "graal_compiler option"

record analysisResults =
  classes :: AnalysisResult
  types :: "AnalysisResult option"
  fields' :: AnalysisResult
  methods :: AnalysisResult

record image_details =
  total_bytes :: number
  code_area_bytes :: number
  code_area_compilation_units :: number
  image_heap_bytes :: number
  image_heap_objects_count :: "number option"
  image_heap_resources_count :: number
  image_heap_resources_bytes :: number
  debug_info_bytes :: "number option"
  runtime_compiled_methods :: "(number \<times> number) option"

record resource_usage =
  cpu_load :: number
  cpu_total_cores :: number
  garbage_collection_count :: number
  garbage_collection_total_secs :: number
  memory_system_total :: number
  memory_peak_rss_bytes :: number
  total_secs :: "number option"

record BuildOutput =
  general_info :: GeneralInfo
  analysis_results :: analysisResults
  image_details :: image_details
  resource_usage :: resource_usage

section \<open>What the module reads from its surroundings\<close>

text \<open>
  \<^verbatim>\<open>github.context\<close>, the environment variables, the action's inputs and the host's
  \<^verbatim>\<open>toLocaleString\<close> (its grouping and digits depend on the locale of the runner) are
  parameters of the model. Of the context only the properties the reports read are kept;
  \<^verbatim>\<open>context.repo.owner\<close> and \<^verbatim>\<open>context.repo.repo\<close> are the fields \<open>repo_owner\<close> and
  \<open>repo_repo\<close>.
\<close>

record Context =
  job :: string
  serverUrl :: string
  repo_owner :: string
  repo_repo :: string
  runId :: number
  runNumber :: number

record env =
  toLocaleString :: "number \<Rightarrow> string"
  GITHUB_BASE_REF :: "string option"
  GITHUB_HEAD_REF :: "string option"
  github_context :: Context
  getInput :: "string \<Rightarrow> string"
  isPREvent :: bool

text \<open>A value of type \<^verbatim>\<open>string | undefined | null\<close>, and what a template prints for it.\<close>

datatype jsstring = JNull | JUndefined | JString string

fun show_jsstring :: "jsstring \<Rightarrow> string" where
  "show_jsstring JNull = ''null''"
| "show_jsstring JUndefined = ''undefined''"
| "show_jsstring (JString s) = s"

definition show_null :: "string option \<Rightarrow> string" where
  "show_null s = (case s of None \<Rightarrow> ''null'' | Some t \<Rightarrow> t)"

definition show_undefined :: "string option \<Rightarrow> string" where
  "show_undefined s = (case s of None \<Rightarrow> ''undefined'' | Some t \<Rightarrow> t)"

definition env_string :: "string option \<Rightarrow> jsstring" where
  "env_string s = (case s of None \<Rightarrow> JUndefined | Some t \<Rightarrow> JString t)"

text \<open>\<^verbatim>\<open>String.prototype.includes\<close>, \<^verbatim>\<open>Array.prototype.join\<close> and
  \<^verbatim>\<open>String.prototype.toLowerCase\<close> (on the ASCII letters).\<close>

fun js_includes :: "string \<Rightarrow> string \<Rightarrow> bool" where
  "js_includes [] pat = (pat = [])"
| "js_includes (c # cs) pat = (prefix pat (c # cs) \<or> js_includes cs pat)"

fun join :: "string list \<Rightarrow> string \<Rightarrow> string" where
  "join [] sep = []"
| "join [x] sep = x"
| "join (x # y # ys) sep = x @ sep @ join (y # ys) sep"

definition lower_char :: "char \<Rightarrow> char" where
  "lower_char c =
     (case map_of (zip ''ABCDEFGHIJKLMNOPQRSTUVWXYZ'' ''abcdefghijklmnopqrstuvwxyz'') c of
        Some l \<Rightarrow> l
      | None \<Rightarrow> c)"

definition toLowerCase :: "string \<Rightarrow> string" where
  "toLowerCase s = map lower_char s"

section \<open>The comparison columns\<close>

definition NL :: string where
  "NL = [CHR 0x0A]"

definition DOCS_BASE :: string where
  "DOCS_BASE =
     ''https://github.com/oracle/graal/blob/master/docs/reference-manual/native-image/BuildOutput.md''"

definition INPUT_NI_JOB_REPORTS :: string where
  "INPUT_NI_JOB_REPORTS = ''native-image-job-reports''"

definition INPUT_NI_PR_REPORTS :: string where
  "INPUT_NI_PR_REPORTS = ''native-image-pr-reports''"

definition INPUT_NI_PR_COMPARISON :: string where
  "INPUT_NI_PR_COMPARISON = ''native-image-pr-comparison''"

definition INPUT_NI_PR_COMPARISON_PARAMETERS :: string where
  "INPUT_NI_PR_COMPARISON_PARAMETERS = ''native-image-pr-comparison-parameter''"

text \<open>
  \<^verbatim>\<open>getCompareColumnTime\<close>, \<^verbatim>\<open>getCompareColumnBytes\<close> and \<^verbatim>\<open>getCompareColumn\<close>. The
  source writes \<^verbatim>\<open>(value / compareValue)*100\<close> out in each condition; it is \<open>ratio\<close>
  here. \<^verbatim>\<open>compareValue\<close> is a \<^verbatim>\<open>number | null\<close>. The parameter
  \<^verbatim>\<open>smallIsPositive\<close> defaults to \<^verbatim>\<open>true\<close>, and no call of the source passes it.
\<close>

definition getCompareColumnTime :: "number \<Rightarrow> number option \<Rightarrow> number \<Rightarrow> number \<Rightarrow> bool \<Rightarrow> string" where
  \<open>getCompareColumnTime value compareValue' lowerPercentageBoarder higherPercentageBoarder
       smallIsPositive =
     (case compareValue' of
        None \<Rightarrow> []
      | Some compareValue \<Rightarrow>
          let ratio = js_mul (js_div value compareValue) (Fin 100)
          in if smallIsPositive
             then
               ''<td align="left">'' @ NL @
               (if js_lt ratio lowerPercentageBoarder
                then '':green_circle: '' @ toFixed (js_sub value compareValue) 2 @
                     ''s ('' @ getDiffPercent compareValue value @ '') :green_circle:''
                else []) @ NL @
               (if js_lt lowerPercentageBoarder ratio \<and> js_lt ratio higherPercentageBoarder
                then toFixed (js_sub value compareValue) 2 @
                     ''s ('' @ getDiffPercent compareValue value @ '')''
                else []) @ NL @
               (if js_gt ratio higherPercentageBoarder
                then '':red_circle: '' @ toFixed (js_sub value compareValue) 2 @
                     ''s ('' @ getDiffPercent compareValue value @ '') :red_circle:''
                else []) @ NL @
               ''</td>''
             else
               ''<td align="left">'' @ NL @
               (if js_lt ratio lowerPercentageBoarder
                then '':red_circle: '' @ toFixed (js_sub value compareValue) 2 @
                     ''s ('' @ getDiffPercent compareValue value @ '') :red_circle:''
                else []) @ NL @
               (if js_lt lowerPercentageBoarder ratio \<and> js_lt ratio higherPercentageBoarder
                then toFixed (js_sub value compareValue) 2 @
                     ''s ('' @ getDiffPercent compareValue value @ '')''
                else []) @ NL @
               (if js_gt ratio higherPercentageBoarder
                then '':green_circle: '' @ toFixed (js_sub value compareValue) 2 @
                     ''s ('' @ getDiffPercent compareValue value @ '') :green_circle:''
                else []) @ NL @
               ''</td>'')\<close>

definition getCompareColumnBytes :: "number \<Rightarrow> number option \<Rightarrow> number \<Rightarrow> number \<Rightarrow> bool \<Rightarrow> string" where
  \<open>getCompareColumnBytes value compareValue' lowerPercentageBoarder higherPercentageBoarder
       smallIsPositive =
     (case compareValue' of
        None \<Rightarrow> []
      | Some compareValue \<Rightarrow>
          let ratio = js_mul (js_div value compareValue) (Fin 100)
          in if smallIsPositive
             then
               ''<td align="left">'' @ NL @
               (if js_lt ratio lowerPercentageBoarder
                then '':green_circle: '' @ bytesToHuman (js_sub value compareValue) @
                     '' ('' @ getDiffPercent compareValue value @ '') :green_circle:''
                else []) @ NL @
               (if js_lt lowerPercentageBoarder ratio \<and> js_lt ratio higherPercentageBoarder
                then bytesToHuman (js_sub value compareValue) @
                     '' ('' @ getDiffPercent compareValue value @ '')''
                else []) @ NL @
               (if js_gt ratio higherPercentageBoarder
                then '':red_circle: '' @ bytesToHuman (js_sub value compareValue) @
                     '' ('' @ getDiffPercent compareValue value @ '') :red_circle:''
                else []) @ NL @
               ''</td>''
             else
               ''<td align="left">'' @ NL @
               (if js_lt ratio lowerPercentageBoarder
                then '':red_circle: '' @ bytesToHuman (js_sub value compareValue) @
                     '' ('' @ getDiffPercent compareValue value @ '') :red_circle:''
                else []) @ NL @
               (if js_lt lowerPercentageBoarder ratio \<and> js_lt ratio higherPercentageBoarder
                then bytesToHuman (js_sub value compareValue) @
                     '' ('' @ getDiffPercent compareValue value @ '')''
                else []) @ NL @
               (if js_gt ratio higherPercentageBoarder
                then '':green_circle: '' @ bytesToHuman (js_sub value compareValue) @
                     '' ('' @ getDiffPercent compareValue value @ '') :green_circle:''
                else []) @ NL @
               ''</td>'')\<close>

definition getCompareColumn :: "number \<Rightarrow> number option \<Rightarrow> number \<Rightarrow> number \<Rightarrow> bool \<Rightarrow> string" where
  \<open>getCompareColumn value compareValue' lowerPercentageBoarder higherPercentageBoarder
       smallIsPositive =
     (case compareValue' of
        None \<Rightarrow> []
      | Some compareValue \<Rightarrow>
          let ratio = js_mul (js_div value compareValue) (Fin 100)
          in if smallIsPositive
             then
               ''<td align="left">'' @ NL @
               (if js_lt ratio lowerPercentageBoarder
                then '':green_circle: '' @ toFixed (js_sub value compareValue) 2 @
                     '' ('' @ getDiffPercent compareValue value @ '') :green_circle:''
                else []) @ NL @
               (if js_lt lowerPercentageBoarder ratio \<and> js_lt ratio higherPercentageBoarder
                then toFixed (js_sub value compareValue) 2 @
                     '' ('' @ getDiffPercent compareValue value @ '')''
                else []) @ NL @
               (if js_gt ratio higherPercentageBoarder
                then '':red_circle: '' @ toFixed (js_sub value compareValue) 2 @
                     '' ('' @ getDiffPercent compareValue value @ '') :red_circle:''
                else []) @ NL @
               ''</td>''
             else
               ''<td align="left">'' @ NL @
               (if js_lt ratio lowerPercentageBoarder
                then '':red_circle: '' @ toFixed (js_sub value compareValue) 2 @
                     '' ('' @ getDiffPercent compareValue value @ '') :red_circle:''
                else []) @ NL @
               (if js_lt lowerPercentageBoarder ratio \<and> js_lt ratio higherPercentageBoarder
                then toFixed (js_sub value compareValue) 2 @
                     '' ('' @ getDiffPercent compareValue value @ '')''
                else []) @ NL @
               (if js_gt ratio higherPercentageBoarder
                then '':green_circle: '' @ toFixed (js_sub value compareValue) 2 @
                     '' ('' @ getDiffPercent compareValue value @ '') :green_circle:''
                else []) @ NL @
               ''</td>'')\<close>

section \<open>The section renderers\<close>

definition getCompareTableHeader :: "jsstring \<Rightarrow> string" where
  \<open>getCompareTableHeader compareBranch =
     (if compareBranch = JNull then []
      else ''<th align="left">Compared to <i>'' @ show_jsstring compareBranch @ ''</i></th>'')\<close>

definition getFooter :: string where
  \<open>getFooter =
     ''<em>Report generated by <a href="https://github.com/marketplace/actions/github-action-for-graalvm" target="_blank">setup-graalvm</a>.</em>''\<close>

definition getDebugInfoLine :: "image_details \<Rightarrow> number \<Rightarrow> string" where
  \<open>getDebugInfoLine details debugInfoBytes =
     (if debug_info_bytes details \<noteq> None
      then
          NL @
          ''    <tr>'' @ NL @
          ''      <td align="left"><a href="'' @ DOCS_BASE @
            ''#glossary-debug-info" target="_blank">Debug info</a></td>'' @ NL @
          ''      <td align="right">'' @ bytesToHuman debugInfoBytes @ ''</td>'' @ NL @
          ''      <td align="right">'' @ toPercent debugInfoBytes (total_bytes details) @
            ''</td>'' @ NL @
          ''      <td align="left"></td>'' @ NL @
          ''    </tr>''
      else [])\<close>

definition getVersionLine :: "GeneralInfo \<Rightarrow> string" where
  \<open>getVersionLine info =
     (case vendor_version info of
        Some (c # cs) \<Rightarrow>
          NL @
          ''    <tr>'' @ NL @
          ''      <td><a href="'' @ DOCS_BASE @
            ''#glossary-java-info" target="_blank">Java version</a></td>'' @ NL @
          ''      <td>'' @ show_null (java_version info) @ ''</td>'' @ NL @
          ''      <td><a href="'' @ DOCS_BASE @
            ''#glossary-java-info" target="_blank">Vendor version</a></td>'' @ NL @
          ''      <td>'' @ (c # cs) @ ''</td>'' @ NL @
          ''    </tr>''
      | _ \<Rightarrow>
          NL @
          ''  <tr>'' @ NL @
          ''    <td><a href="'' @ DOCS_BASE @
            ''#glossary-version-info" target="_blank">GraalVM version</a></td>'' @ NL @
          ''    <td>'' @ graalvm_version info @ ''</td>'' @ NL @
          ''    <td><a href="'' @ DOCS_BASE @
            ''#glossary-java-version-info" target="_blank">Java version</a></td>'' @ NL @
          ''    <td>'' @ show_null (java_version info) @ ''</td>'' @ NL @
          ''  </tr>'')\<close>

definition getGraalLine :: "GeneralInfo \<Rightarrow> string" where
  \<open>getGraalLine info =
     (case graal_compiler info of
        None \<Rightarrow> []
      | Some gc \<Rightarrow>
          let isOracleGraalVM =
                (case vendor_version info of
                   None \<Rightarrow> False
                 | Some v \<Rightarrow> v \<noteq> [] \<and> js_includes v ''Oracle GraalVM'');
              pgoSuffix =
                (if isOracleGraalVM
                 then let pgoText = (case pgo gc of Some p \<Rightarrow> join p ''+'' | None \<Rightarrow> ''off'')
                      in '', <a href="'' @ DOCS_BASE @ ''#recommendation-pgo" target="_blank">PGO</a>: '' @ pgoText
                 else [])
          in
          NL @
          ''    <tr>'' @ NL @
          ''      <td align="left"><a href="'' @ DOCS_BASE @
            ''#glossary-graal-compiler" target="_blank">Graal compiler</a></td>'' @ NL @
          ''      <td colspan="3">'' @ NL @
          ''        optimization level: '' @ optimization_level gc @ '','' @ NL @
          ''        target machine: '' @ march gc @ pgoSuffix @ NL @
          ''      </td>'' @ NL @
          ''    </tr>'')\<close>

definition getTotalTime :: "resource_usage \<Rightarrow> string" where
  "getTotalTime resources =
     (case total_secs resources of
        None \<Rightarrow> []
      | Some t \<Rightarrow> if js_truthy t then '' in '' @ secondsToHuman t else [])"

definition getTotalTimeRatio :: "resource_usage \<Rightarrow> string" where
  "getTotalTimeRatio resources =
     (case total_secs resources of
        None \<Rightarrow> []
      | Some t \<Rightarrow>
          if js_truthy t
          then '' ('' @ toPercent (garbage_collection_total_secs resources) t @ '' of total time)''
          else [])"

definition getReportHeader :: "GeneralInfo \<Rightarrow> string \<Rightarrow> Context \<Rightarrow> string" where
  \<open>getReportHeader info totalTime context =
     ''## GraalVM Native Image Build Report'' @ NL @
     NL @
     ''`'' @ name info @ ''` generated'' @ totalTime @ '' as part of the '' @ [CHR 0x27] @
       job context @ ''' job in run <a href="'' @ serverUrl context @ ''/'' @ repo_owner context @
       ''/'' @ repo_repo context @ ''/actions/runs/'' @ numToString (runId context) @
       ''" target="_blank">#'' @ numToString (runNumber context) @ ''</a>.'' @ NL\<close>

definition getEnvironmentTable :: "string \<Rightarrow> string \<Rightarrow> GeneralInfo \<Rightarrow> string" where
  \<open>getEnvironmentTable versionLine graalLine info =
     ''#### Environment'' @ NL @
     NL @
     ''<table>'' @ versionLine @ graalLine @ NL @
     ''  <tr>'' @ NL @
     ''    <td><a href="'' @ DOCS_BASE @
       ''#glossary-ccompiler" target="_blank">C compiler</a></td>'' @ NL @
     ''    <td colspan="3">'' @ show_null (c_compiler info) @ ''</td>'' @ NL @
     ''  </tr>'' @ NL @
     ''  <tr>'' @ NL @
     ''    <td><a href="'' @ DOCS_BASE @
       ''#glossary-gc" target="_blank">Garbage collector</a></td>'' @ NL @
     ''    <td colspan="3">'' @ garbage_collector info @ ''</td>'' @ NL @
     ''  </tr>'' @ NL @
     ''</table>'' @ NL\<close>

text \<open>
  \<^verbatim>\<open>getAnalysisTable\<close>: one template in the source. Its head, its four body rows and
  its end are defined one by one, cut where a row of the table body starts.
\<close>

definition getAnalysisTable_head :: "jsstring \<Rightarrow> string" where
  \<open>getAnalysisTable_head compareBranch =
     ''#### Analysis Results'' @ NL @
     NL @
     ''<table>'' @ NL @
     ''  <thead>'' @ NL @
     ''    <tr>'' @ NL @
     ''      <th align="left">Category</th>'' @ NL @
     ''      <th align="right">Types</th>'' @ NL @
     ''      <th align="right">in %</th>'' @ getCompareTableHeader compareBranch @ NL @
     ''      <th align="right">Fields</th>'' @ NL @
     ''      <th align="right">in %</th>'' @ getCompareTableHeader compareBranch @ NL @
     ''      <th align="right">Methods</th>'' @ NL @
     ''      <th align="right">in %</th>'' @ getCompareTableHeader compareBranch @ NL @
     ''    </tr>'' @ NL @
     ''  </thead>'' @ NL @
     ''  <tbody>'' @ NL\<close>

definition getAnalysisTable_Reachable :: "env \<Rightarrow> analysisResults \<Rightarrow> AnalysisResult \<Rightarrow> analysisResults option \<Rightarrow> AnalysisResult option \<Rightarrow> string" where
  \<open>getAnalysisTable_Reachable env analysis analysisTypes compareAnalysis compareAnalysisType =
     ''    <tr>'' @ NL @
     ''      <td align="left"><a href="'' @ DOCS_BASE @
       ''#glossary-reachability" target="_blank">Reachable</a></td>'' @ NL @
     ''      <td align="right">'' @ toLocaleString env (reachable analysisTypes) @ ''</td>'' @
       NL @
     ''      <td align="right">'' @ toPercent (reachable analysisTypes) (total' analysisTypes) @
       ''</td>'' @
       (case compareAnalysisType of
          None \<Rightarrow> []
        | Some c \<Rightarrow>
            getCompareColumn (reachable analysisTypes)
              (Some (reachable c)) (Fin 98) (Fin 108) True) @
       NL @
     ''      <td align="right">'' @ toLocaleString env (reachable (fields' analysis)) @
       ''</td>'' @ NL @
     ''      <td align="right">'' @
       toPercent (reachable (fields' analysis)) (total' (fields' analysis)) @ ''</td>'' @
       (case compareAnalysis of
          None \<Rightarrow> []
        | Some c \<Rightarrow>
            getCompareColumn (reachable (fields' analysis))
              (Some (reachable (fields' c))) (Fin 98) (Fin 108) True) @
       NL @
     ''      <td align="right">'' @ toLocaleString env (reachable (methods analysis)) @
       ''</td>'' @ NL @
     ''      <td align="right">'' @
       toPercent (reachable (methods analysis)) (total' (methods analysis)) @ ''</td>'' @
       (case compareAnalysis of
          None \<Rightarrow> []
        | Some c \<Rightarrow>
            getCompareColumn (reachable (methods analysis))
              (Some (reachable (methods c))) (Fin 98) (Fin 108) True) @
       NL @
     ''    </tr>'' @ NL\<close>

definition getAnalysisTable_Reflection :: "env \<Rightarrow> analysisResults \<Rightarrow> AnalysisResult \<Rightarrow> analysisResults option \<Rightarrow> AnalysisResult option \<Rightarrow> string" where
  \<open>getAnalysisTable_Reflection env analysis analysisTypes compareAnalysis compareAnalysisType =
     ''    <tr>'' @ NL @
     ''      <td align="left"><a href="'' @ DOCS_BASE @
       ''#glossary-reflection-registrations" target="_blank">Reflection</a></td>'' @ NL @
     ''      <td align="right">'' @ toLocaleString env (reflection analysisTypes) @ ''</td>'' @
       NL @
     ''      <td align="right">'' @ toPercent (reflection analysisTypes) (total' analysisTypes) @
       ''</td>'' @
       (case compareAnalysisType of
          None \<Rightarrow> []
        | Some c \<Rightarrow>
            getCompareColumn (reflection analysisTypes)
              (Some (reflection c)) (Fin 98) (Fin 108) True) @
       NL @
     ''      <td align="right">'' @ toLocaleString env (reflection (fields' analysis)) @
       ''</td>'' @ NL @
     ''      <td align="right">'' @
       toPercent (reflection (fields' analysis)) (total' (fields' analysis)) @ ''</td>'' @
       (case compareAnalysis of
          None \<Rightarrow> []
        | Some c \<Rightarrow>
            getCompareColumn (reflection (fields' analysis))
              (Some (reflection (fields' c))) (Fin 98) (Fin 108) True) @
       NL @
     ''      <td align="right">'' @ toLocaleString env (reflection (methods analysis)) @
       ''</td>'' @ NL @
     ''      <td align="right">'' @
       toPercent (reflection (methods analysis)) (total' (methods analysis)) @ ''</td>'' @
       (case compareAnalysis of
          None \<Rightarrow> []
        | Some c \<Rightarrow>
            getCompareColumn (reflection (methods analysis))
              (Some (reflection (methods c))) (Fin 98) (Fin 108) True) @
       NL @
     ''    </tr>'' @ NL\<close>

definition getAnalysisTable_JNI :: "env \<Rightarrow> analysisResults \<Rightarrow> AnalysisResult \<Rightarrow> analysisResults option \<Rightarrow> AnalysisResult option \<Rightarrow> string" where
  \<open>getAnalysisTable_JNI env analysis analysisTypes compareAnalysis compareAnalysisType =
     ''    <tr>'' @ NL @
     ''      <td align="left"><a href="'' @ DOCS_BASE @
       ''#glossary-jni-access-registrations" target="_blank">JNI</a></td>'' @ NL @
     ''      <td align="right">'' @ toLocaleString env (jni analysisTypes) @ ''</td>'' @ NL @
     ''      <td align="right">'' @ toPercent (jni analysisTypes) (total' analysisTypes) @
       ''</td>'' @
       (case compareAnalysisType of
          None \<Rightarrow> []
        | Some c \<Rightarrow>
            getCompareColumn (jni analysisTypes)
              (Some (jni c)) (Fin 98) (Fin 108) True) @
       NL @
     ''      <td align="right">'' @ toLocaleString env (jni (fields' analysis)) @ ''</td>'' @ NL @
     ''      <td align="right">'' @
       toPercent (jni (fields' analysis)) (total' (fields' analysis)) @ ''</td>'' @
       (case compareAnalysis of
          None \<Rightarrow> []
        | Some c \<Rightarrow>
            getCompareColumn (jni (fields' analysis))
              (Some (jni (fields' c))) (Fin 98) (Fin 108) True) @
       NL @
     ''      <td align="right">'' @ toLocaleString env (jni (methods analysis)) @ ''</td>'' @ NL @
     ''      <td align="right">'' @
       toPercent (jni (methods analysis)) (total' (methods analysis)) @ ''</td>'' @
       (case compareAnalysis of
          None \<Rightarrow> []
        | Some c \<Rightarrow>
            getCompareColumn (jni (methods analysis))
              (Some (jni (methods c))) (Fin 98) (Fin 108) True) @
       NL @
     ''    </tr>'' @ NL\<close>

definition getAnalysisTable_Loaded :: "env \<Rightarrow> analysisResults \<Rightarrow> AnalysisResult \<Rightarrow> analysisResults option \<Rightarrow> AnalysisResult option \<Rightarrow> string" where
  \<open>getAnalysisTable_Loaded env analysis analysisTypes compareAnalysis compareAnalysisType =
     ''    <tr>'' @ NL @
     ''      <td align="left"><a href="'' @ DOCS_BASE @
       ''#glossary-reachability" target="_blank">Loaded</a></td>'' @ NL @
     ''      <td align="right">'' @ toLocaleString env (total' analysisTypes) @ ''</td>'' @ NL @
     ''      <td align="right">100.000%</td>'' @
       (case compareAnalysisType of
          None \<Rightarrow> []
        | Some c \<Rightarrow>
            getCompareColumn (total' analysisTypes)
              (Some (total' c)) (Fin 98) (Fin 108) True) @
       NL @
     ''      <td align="right">'' @ toLocaleString env (total' (fields' analysis)) @ ''</td>'' @
       NL @
     ''      <td align="right">100.000%</td>'' @
       (case compareAnalysis of
          None \<Rightarrow> []
        | Some c \<Rightarrow>
            getCompareColumn (total' (fields' analysis))
              (Some (total' (fields' c))) (Fin 98) (Fin 108) True) @
       NL @
     ''      <td align="right">'' @ toLocaleString env (total' (methods analysis)) @ ''</td>'' @
       NL @
     ''      <td align="right">100.000%</td>'' @
       (case compareAnalysis of
          None \<Rightarrow> []
        | Some c \<Rightarrow>
            getCompareColumn (total' (methods analysis))
              (Some (total' (methods c))) (Fin 98) (Fin 108) True) @
       NL @
     ''    </tr>'' @ NL\<close>

definition getAnalysisTable_end :: string where
  "getAnalysisTable_end =
     ''  </tbody>'' @ NL @
     ''</table>'' @ NL"

definition getAnalysisTable :: "env \<Rightarrow> analysisResults \<Rightarrow> AnalysisResult \<Rightarrow> analysisResults option \<Rightarrow> AnalysisResult option \<Rightarrow> jsstring \<Rightarrow> string" where
  "getAnalysisTable env analysis analysisTypes compareAnalysis compareAnalysisType compareBranch =
     getAnalysisTable_head compareBranch @
     getAnalysisTable_Reachable env analysis analysisTypes compareAnalysis compareAnalysisType @
     getAnalysisTable_Reflection env analysis analysisTypes compareAnalysis compareAnalysisType @
     getAnalysisTable_JNI env analysis analysisTypes compareAnalysis compareAnalysisType @
     getAnalysisTable_Loaded env analysis analysisTypes compareAnalysis compareAnalysisType @
     getAnalysisTable_end"

text \<open>\<^verbatim>\<open>getDetailsTable\<close>, cut in the same way.\<close>

definition getDetailsTable_head :: "jsstring \<Rightarrow> string" where
  \<open>getDetailsTable_head compareBranch =
     ''#### Image Details'' @ NL @
     NL @
     ''<table>'' @ NL @
     ''  <thead>'' @ NL @
     ''    <tr>'' @ NL @
     ''      <th align="left">Category</th>'' @ NL @
     ''      <th align="right">Size</th>'' @ NL @
     ''      <th align="right">in %</th>'' @ getCompareTableHeader compareBranch @ NL @
     ''      <th align="left">Details</th>'' @ NL @
     ''    </tr>'' @ NL @
     ''  </thead>'' @ NL @
     ''  <tbody>'' @ NL\<close>

definition getDetailsTable_CodeArea :: "env \<Rightarrow> image_details \<Rightarrow> image_details option \<Rightarrow> string" where
  \<open>getDetailsTable_CodeArea env details compareDetails =
     ''    <tr>'' @ NL @
     ''      <td align="left"><a href="'' @ DOCS_BASE @
       ''#glossary-code-area" target="_blank">Code area</a></td>'' @ NL @
     ''      <td align="right">'' @ bytesToHuman (code_area_bytes details) @ ''</td>'' @ NL @
     ''      <td align="right">'' @ toPercent (code_area_bytes details) (total_bytes details) @
       ''</td>'' @
       (case compareDetails of
          None \<Rightarrow> []
        | Some c \<Rightarrow>
            getCompareColumnBytes (code_area_bytes details)
              (Some (code_area_bytes c)) (Fin 98) (Fin 110) True) @
       NL @
     ''      <td align="left">'' @ toLocaleString env (code_area_compilation_units details) @
       '' compilation units</td>'' @ NL @
     ''    </tr>'' @ NL\<close>

definition getDetailsTable_ImageHeap :: "env \<Rightarrow> image_details \<Rightarrow> string \<Rightarrow> image_details option \<Rightarrow> string" where
  \<open>getDetailsTable_ImageHeap env details objectCount compareDetails =
     ''    <tr>'' @ NL @
     ''      <td align="left"><a href="'' @ DOCS_BASE @
       ''#glossary-image-heap" target="_blank">Image heap</a></td>'' @ NL @
     ''      <td align="right">'' @ bytesToHuman (image_heap_bytes details) @ ''</td>'' @ NL @
     ''      <td align="right">'' @ toPercent (image_heap_bytes details) (total_bytes details) @
       ''</td>'' @
       (case compareDetails of
          None \<Rightarrow> []
        | Some c \<Rightarrow>
            getCompareColumnBytes (image_heap_bytes details)
              (Some (image_heap_bytes c)) (Fin 98) (Fin 110) True) @
       NL @
     ''      <td align="left">'' @ objectCount @
       bytesToHuman (image_heap_resources_bytes details) @ '' for '' @
       toLocaleString env (image_heap_resources_count details) @ '' resources</td>'' @ NL @
     ''    </tr>''\<close>

definition getDetailsTable_OtherData :: "image_details \<Rightarrow> number \<Rightarrow> number option \<Rightarrow> string" where
  \<open>getDetailsTable_OtherData details otherBytes compareOtherBytes =
     ''    <tr>'' @ NL @
     ''      <td align="left"><a href="'' @ DOCS_BASE @
       ''#glossary-other-data" target="_blank">Other data</a></td>'' @ NL @
     ''      <td align="right">'' @ bytesToHuman otherBytes @ ''</td>'' @ NL @
     ''      <td align="right">'' @ toPercent otherBytes (total_bytes details) @ ''</td>'' @
       (case compareOtherBytes of
          None \<Rightarrow> []
        | Some c \<Rightarrow>
            getCompareColumnBytes otherBytes
              (Some c) (Fin 98) (Fin 110) True) @
       NL @
     ''      <td align="left"></td>'' @ NL @
     ''    </tr>'' @ NL\<close>

definition getDetailsTable_Total :: "image_details \<Rightarrow> image_details option \<Rightarrow> string" where
  \<open>getDetailsTable_Total details compareDetails =
     ''    <tr>'' @ NL @
     ''      <td align="left">Total</td>'' @ NL @
     ''      <td align="right"><strong>'' @ bytesToHuman (total_bytes details) @
       ''</strong></td>'' @ NL @
     ''      <td align="right">100.000%</td>'' @
       (case compareDetails of
          None \<Rightarrow> []
        | Some c \<Rightarrow>
            getCompareColumnBytes (total_bytes details)
              (Some (total_bytes c)) (Fin 98) (Fin 110) True) @
       NL @
     ''      <td align="left"></td>'' @ NL @
     ''    </tr>'' @ NL\<close>

definition getDetailsTable_end :: string where
  "getDetailsTable_end =
     ''  </tbody>'' @ NL @
     ''</table>'' @ NL"

definition getDetailsTable :: "env \<Rightarrow> image_details \<Rightarrow> string \<Rightarrow> string \<Rightarrow> number \<Rightarrow> image_details option \<Rightarrow> jsstring \<Rightarrow> number option \<Rightarrow> string" where
  "getDetailsTable env details objectCount debugInfoLine otherBytes compareDetails compareBranch
       compareOtherBytes =
     getDetailsTable_head compareBranch @
     getDetailsTable_CodeArea env details compareDetails @
     getDetailsTable_ImageHeap env details objectCount compareDetails @
     debugInfoLine @ NL @
     getDetailsTable_OtherData details otherBytes compareOtherBytes @
     getDetailsTable_Total details compareDetails @
     getDetailsTable_end"

definition getResourcesUsageHeader :: "jsstring \<Rightarrow> string" where
  \<open>getResourcesUsageHeader compareBranch =
     (if compareBranch = JNull then []
      else
        ''<thead>'' @ NL @
        ''    <tr>'' @ NL @
        ''      <th align="left">Category</th>'' @ NL @
        ''      <th align="right">Resources</th>'' @ getCompareTableHeader compareBranch @ NL @
        ''    </tr>'' @ NL @
        ''  </thead>'')\<close>

definition getResourceUsageTable :: "resource_usage \<Rightarrow> string \<Rightarrow> resource_usage option \<Rightarrow> jsstring \<Rightarrow> string" where
  \<open>getResourceUsageTable resources gcTotalTimeRatio compareResources compareBranch =
     ''#### Resource Usage'' @ NL @
     NL @
     ''<table>'' @ getResourcesUsageHeader compareBranch @ NL @
     ''  <tbody>'' @ NL @
     ''    <tr>'' @ NL @
     ''      <td align="left"><a href="'' @ DOCS_BASE @
       ''#glossary-garbage-collections" target="_blank">Garbage collection</a></td>'' @ NL @
     ''      <td align="left">'' @ toFixed (garbage_collection_total_secs resources) 2 @ ''s'' @
       gcTotalTimeRatio @ '' in '' @ numToString (garbage_collection_count resources) @
       '' GCs</td>'' @
       (case compareResources of
          None \<Rightarrow> []
        | Some c \<Rightarrow>
            getCompareColumnTime (garbage_collection_total_secs resources)
              (Some (garbage_collection_total_secs c)) (Fin 98) (Fin 108) True) @
       NL @
     ''    </tr>'' @ NL @
     ''    <tr>'' @ NL @
     ''      <td align="left"><a href="'' @ DOCS_BASE @
       ''#glossary-peak-rss" target="_blank">Peak RSS</a></td>'' @ NL @
     ''      <td align="left">'' @ bytesToHuman (memory_peak_rss_bytes resources) @ '' ('' @
       toPercent (memory_peak_rss_bytes resources) (memory_system_total resources) @ '' of '' @
       bytesToHuman (memory_system_total resources) @ '' system memory)</td>'' @
       (case compareResources of
          None \<Rightarrow> []
        | Some c \<Rightarrow>
            getCompareColumnBytes (memory_peak_rss_bytes resources)
              (Some (memory_peak_rss_bytes c)) (Fin 98) (Fin 108) True) @
       NL @
     ''    </tr>'' @ NL @
     ''    <tr>'' @ NL @
     ''      <td align="left"><a href="'' @ DOCS_BASE @
       ''#glossary-cpu-load" target="_blank">CPU load</a></td>'' @ NL @
     ''      <td align="left">'' @ toFixed (cpu_load resources) 3 @ '' ('' @
       toPercent (cpu_load resources) (cpu_total_cores resources) @ '' of '' @
       numToString (cpu_total_cores resources) @ '' CPU cores)</td>'' @
       (case compareResources of
          None \<Rightarrow> []
        | Some c \<Rightarrow>
            getCompareColumn (cpu_load resources)
              (Some (cpu_load c)) (Fin 98) (Fin 108) True) @
       NL @
     ''    </tr>'' @ NL @
     ''  </tbody>'' @ NL @
     ''</table>'' @ NL\<close>

section \<open>The chart comparison\<close>

datatype error = TypeError | SyntaxError | Rejected string

definition createComparedDetailsDiagramm :: "string option \<Rightarrow> string option \<Rightarrow> image_details \<Rightarrow> image_details \<Rightarrow> number \<Rightarrow> number \<Rightarrow> string" where
  "createComparedDetailsDiagramm recentBranch baseBranch detailsRecent detailsBase otherBytesBase
       otherBytesRecent =
     ''#### Image Details'' @ NL @
     NL @
     ''```mermaid'' @ NL @
     ''gantt'' @ NL @
     ''    title Native Image Size Details '' @ NL @
     ''    todayMarker off'' @ NL @
     ''    dateFormat  X'' @ NL @
     ''    axisFormat %'' @ NL @
     NL @
     ''    section Code area'' @ NL @
     ''    '' @ show_undefined recentBranch @ '' ('' @
       bytesToHuman (code_area_bytes detailsRecent) @ ''): active, 0, '' @
       numToString (code_area_bytes detailsRecent) @ NL @
     ''    '' @ show_undefined baseBranch @ '' ('' @ bytesToHuman (code_area_bytes detailsBase) @
       ''): 0, '' @ numToString (code_area_bytes detailsBase) @ NL @
     ''    '' @ NL @
     ''    section Image heap'' @ NL @
     ''    '' @ show_undefined recentBranch @ '' ('' @
       bytesToHuman (image_heap_bytes detailsRecent) @ ''): active, 0, '' @
       numToString (image_heap_bytes detailsRecent) @ NL @
     ''    '' @ show_undefined baseBranch @ '' ('' @ bytesToHuman (image_heap_bytes detailsBase) @
       ''): 0, '' @ numToString (image_heap_bytes detailsBase) @ NL @
     ''    '' @ NL @
     ''    section Other data'' @ NL @
     ''    '' @ show_undefined recentBranch @ '' ('' @ bytesToHuman otherBytesRecent @
       ''): active, 0, '' @ numToString otherBytesRecent @ NL @
     ''    '' @ show_undefined baseBranch @ '' ('' @ bytesToHuman otherBytesBase @ ''): 0, '' @
       numToString otherBytesBase @ NL @
     NL @
     ''    section Total'' @ NL @
     ''    '' @ show_undefined recentBranch @ '' ('' @ bytesToHuman (total_bytes detailsRecent) @
       '')   : active, 0, '' @ numToString (total_bytes detailsRecent) @ NL @
     ''    '' @ show_undefined baseBranch @ '' ('' @ bytesToHuman (total_bytes detailsBase) @
       '')   : 0, '' @ numToString (total_bytes detailsBase) @ NL @
     ''```'' @ NL"

text \<open>
  \<^verbatim>\<open>analysisTypeBase\<close> is \<^verbatim>\<open>undefined\<close> when \<^verbatim>\<open>createPRComparison\<close> found no
  \<^verbatim>\<open>types\<close> in the base snapshot; reading \<^verbatim>\<open>analysisTypeBase.reachable\<close> then throws
  a \<^verbatim>\<open>TypeError\<close>.
\<close>

definition createComparedAnalysisResultsDiagramm :: "string option \<Rightarrow> string option \<Rightarrow> analysisResults \<Rightarrow> AnalysisResult \<Rightarrow> analysisResults \<Rightarrow> AnalysisResult option \<Rightarrow> error + string" where
  "createComparedAnalysisResultsDiagramm recentBranch baseBranch analysisRecent analysisTypesRecent
       analysisBase analysisTypeBase' =
     (case analysisTypeBase' of
        None \<Rightarrow> Inl TypeError
      | Some analysisTypeBase \<Rightarrow> Inr (
          ''#### Analysis Results'' @ NL @
          NL @
          ''```mermaid'' @ NL @
          ''gantt'' @ NL @
          ''    title Native Image Analysis Results '' @ NL @
          ''    todayMarker off'' @ NL @
          ''    dateFormat  X'' @ NL @
          ''    axisFormat %'' @ NL @
          NL @
          ''    section Types'' @ NL @
          ''    '' @ show_undefined recentBranch @ '' '' @
            numToString (reachable analysisTypesRecent) @ '' (Reachable): active, 0, '' @
            numToString (reachable analysisTypesRecent) @ NL @
          ''    '' @ show_undefined baseBranch @ '' '' @
            numToString (reachable analysisTypeBase) @ '' (Reachable): 0, '' @
            numToString (reachable analysisTypeBase) @ NL @
          ''    '' @ show_undefined recentBranch @ '' '' @
            numToString (reflection analysisTypesRecent) @ '' (Reflection): active, 0, '' @
            numToString (reflection analysisTypesRecent) @ NL @
          ''    '' @ show_undefined baseBranch @ '' '' @
            numToString (reflection analysisTypeBase) @ '' (Reflection): 0, '' @
            numToString (reflection analysisTypeBase) @ NL @
          ''    '' @ show_undefined recentBranch @ '' '' @ numToString (jni analysisTypesRecent) @
            '' (JNI): active, 0, '' @ numToString (jni analysisTypesRecent) @ NL @
          ''    '' @ show_undefined baseBranch @ '' '' @ numToString (jni analysisTypeBase) @
            '' (JNI): 0, '' @ numToString (jni analysisTypeBase) @ NL @
          ''    '' @ show_undefined recentBranch @ '' '' @
            numToString (total' analysisTypesRecent) @ '' (Total Loaded): active, 0, '' @
            numToString (total' analysisTypesRecent) @ NL @
          ''    '' @ show_undefined baseBranch @ '' '' @ numToString (total' analysisTypeBase) @
            '' (Total Loaded): 0, '' @ numToString (total' analysisTypeBase) @ NL @
          ''    '' @ NL @
          ''    section Fields'' @ NL @
          ''    '' @ show_undefined recentBranch @ '' '' @
            numToString (reachable (fields' analysisRecent)) @ '' (Reachable): active, 0, '' @
            numToString (reachable (fields' analysisRecent)) @ NL @
          ''    '' @ show_undefined baseBranch @ '' '' @
            numToString (reachable (fields' analysisBase)) @ '' (Reachable): 0, '' @
            numToString (reachable (fields' analysisBase)) @ NL @
          ''    '' @ show_undefined recentBranch @ '' '' @
            numToString (reflection (fields' analysisRecent)) @ '' (Reflection): active, 0, '' @
            numToString (reflection (fields' analysisRecent)) @ NL @
          ''    '' @ show_undefined baseBranch @ '' '' @
            numToString (reflection (fields' analysisBase)) @ '' (Reflection): 0, '' @
            numToString (reflection (fields' analysisBase)) @ NL @
          ''    '' @ show_undefined recentBranch @ '' '' @
            numToString (jni (fields' analysisRecent)) @ '' (JNI): active, 0, '' @
            numToString (jni (fields' analysisRecent)) @ NL @
          ''    '' @ show_undefined baseBranch @ '' '' @
            numToString (jni (fields' analysisBase)) @ '' (JNI): 0, '' @
            numToString (jni (fields' analysisBase)) @ NL @
          ''    '' @ show_undefined recentBranch @ '' '' @
            numToString (total' (fields' analysisRecent)) @ '' (Total Loaded): active, 0, '' @
            numToString (total' (fields' analysisRecent)) @ NL @
          ''    '' @ show_undefined baseBranch @ '' '' @
            numToString (total' (fields' analysisBase)) @ '' (Total Loaded): 0, '' @
            numToString (total' (fields' analysisBase)) @ NL @
          ''    '' @ NL @
          ''    section Methods'' @ NL @
          ''    '' @ show_undefined recentBranch @ '' '' @
            numToString (reachable (methods analysisRecent)) @ '' (Reachable): active, 0, '' @
            numToString (reachable (methods analysisRecent)) @ NL @
          ''    '' @ show_undefined baseBranch @ '' '' @
            numToString (reachable (methods analysisBase)) @ '' (Reachable): 0, '' @
            numToString (reachable (methods analysisBase)) @ NL @
          ''    '' @ show_undefined recentBranch @ '' '' @
            numToString (reflection (methods analysisRecent)) @ '' (Reflection): active, 0, '' @
            numToString (reflection (methods analysisRecent)) @ NL @
          ''    '' @ show_undefined baseBranch @ '' '' @
            numToString (reflection (methods analysisBase)) @ '' (Reflection): 0, '' @
            numToString (reflection (methods analysisBase)) @ NL @
          ''    '' @ show_undefined recentBranch @ '' '' @
            numToString (jni (methods analysisRecent)) @ '' (JNI): active, 0, '' @
            numToString (jni (methods analysisRecent)) @ NL @
          ''    '' @ show_undefined baseBranch @ '' '' @
            numToString (jni (methods analysisBase)) @ '' (JNI): 0, '' @
            numToString (jni (methods analysisBase)) @ NL @
          ''    '' @ show_undefined recentBranch @ '' '' @
            numToString (total' (methods analysisRecent)) @ '' (Total Loaded): active, 0, '' @
            numToString (total' (methods analysisRecent)) @ NL @
          ''    '' @ show_undefined baseBranch @ '' '' @
            numToString (total' (methods analysisBase)) @ '' (Total Loaded): 0, '' @
            numToString (total' (methods analysisBase)) @ NL @
          ''```'' @ NL))"

definition createComparedResourceUsageDiagramm :: "string option \<Rightarrow> string option \<Rightarrow> resource_usage \<Rightarrow> resource_usage \<Rightarrow> string" where
  "createComparedResourceUsageDiagramm recentBranch baseBranch resourcesRecent resourcesBase =
     ''#### Resource Usage'' @ NL @
     NL @
     ''```mermaid'' @ NL @
     ''gantt'' @ NL @
     ''    title Native Image Resource Usage'' @ NL @
     ''    todayMarker off'' @ NL @
     ''    dateFormat  X'' @ NL @
     ''    axisFormat %'' @ NL @
     NL @
     ''    section Garbage Collection'' @ NL @
     ''    '' @ show_undefined recentBranch @ '' ('' @
       numToString (garbage_collection_total_secs resourcesRecent) @ ''s): active, 0, 100'' @ NL @
     ''    '' @ show_undefined baseBranch @ '' ('' @
       numToString (garbage_collection_total_secs resourcesBase) @ ''s): 0, '' @
       normalizeValue (garbage_collection_total_secs resourcesBase) (garbage_collection_total_secs resourcesRecent) @
       NL @
     ''    '' @ NL @
     ''    section Peak RSS'' @ NL @
     ''    '' @ show_undefined recentBranch @ '' ('' @
       bytesToHuman (memory_peak_rss_bytes resourcesRecent) @ ''): active, 0, 100'' @ NL @
     ''    '' @ show_undefined baseBranch @ '' ('' @
       bytesToHuman (memory_peak_rss_bytes resourcesBase) @ ''): 0, '' @
       normalizeValue (memory_peak_rss_bytes resourcesBase) (memory_peak_rss_bytes resourcesRecent) @
       NL @
     ''    '' @ NL @
     ''    section CPU Load'' @ NL @
     ''    '' @ show_undefined recentBranch @ '' ('' @ bytesToHuman (cpu_load resourcesRecent) @
       ''): active, 0, 100'' @ NL @
     ''    '' @ show_undefined baseBranch @ '' ('' @ bytesToHuman (cpu_load resourcesBase) @
       ''): 0, '' @ normalizeValue (cpu_load resourcesBase) (cpu_load resourcesRecent) @ NL @
     ''```'' @ NL"

definition getPRComparePara :: "env \<Rightarrow> string" where
  "getPRComparePara env = getInput env INPUT_NI_PR_COMPARISON_PARAMETERS"

definition createPRComparison :: "env \<Rightarrow> BuildOutput \<Rightarrow> BuildOutput \<Rightarrow> error + string" where
  "createPRComparison env dataRecent dataBase =
     (let analysisRecent = analysis_results dataRecent;
          analysisTypesRecent =
            (case types analysisRecent of Some t \<Rightarrow> t | None \<Rightarrow> classes analysisRecent);
          analysisBase = analysis_results dataBase;
          analysisTypesBase =
            (case types analysisRecent of
               Some t \<Rightarrow> types analysisBase
             | None \<Rightarrow> Some (classes analysisBase));
          detailsRecent = image_details dataRecent;
          detailsBase = image_details dataBase;
          debugInfoBytesRecent =
            (case debug_info_bytes detailsBase of Some b \<Rightarrow> b | None \<Rightarrow> Fin 0);
          debugInfoBytesBase =
            (case debug_info_bytes detailsBase of Some b \<Rightarrow> b | None \<Rightarrow> Fin 0);
          otherBytesRecent =
            js_sub (js_sub (js_sub (total_bytes detailsRecent) (code_area_bytes detailsRecent))
                           (image_heap_bytes detailsRecent))
                   debugInfoBytesRecent;
          otherBytesBase =
            js_sub (js_sub (js_sub (total_bytes detailsBase) (code_area_bytes detailsBase))
                           (image_heap_bytes detailsBase))
                   debugInfoBytesBase;
          resourcesRecent = resource_usage dataRecent;
          resourcesBase = resource_usage dataBase;
          baseBranch = GITHUB_BASE_REF env;
          recentBranch = GITHUB_HEAD_REF env;
          compareParameter = toLowerCase (getPRComparePara env)
      in case (if js_includes compareParameter ''analysis results''
               then createComparedAnalysisResultsDiagramm recentBranch baseBranch analysisRecent
                      analysisTypesRecent analysisBase analysisTypesBase
               else Inr [])
         of Inl e \<Rightarrow> Inl e
          | Inr analysisDiagramm \<Rightarrow> Inr (
              ''## GraalVM Native Image PR comparison'' @ NL @
              NL @
              analysisDiagramm @ NL @
              (if js_includes compareParameter ''image details''
               then createComparedDetailsDiagramm recentBranch baseBranch detailsRecent detailsBase
                      otherBytesBase otherBytesRecent
               else []) @ NL @
              (if js_includes compareParameter ''resource usage''
               then createComparedResourceUsageDiagramm recentBranch baseBranch resourcesRecent
                      resourcesBase
               else []) @ NL @
              NL @
              getFooter))"

section \<open>The report\<close>

text \<open>
  \<^verbatim>\<open>createReport(data, compareData = null)\<close>. The variables that stay \<^verbatim>\<open>null\<close>
  without \<^verbatim>\<open>compareData\<close> are \<open>None\<close> (\<open>JNull\<close> for the branch name); the block
  \<^verbatim>\<open>if (compareData !== null)\<close> assigns them from \<open>compareData\<close>.
\<close>

definition createReport :: "env \<Rightarrow> BuildOutput \<Rightarrow> BuildOutput option \<Rightarrow> string" where
  "createReport env data compareData =
     (let context = github_context env;
          info = general_info data;
          analysis = analysis_results data;
          analysisTypes = (case types analysis of Some t \<Rightarrow> t | None \<Rightarrow> classes analysis);
          details = image_details data;
          objectCount =
            (case image_heap_objects_count details of
               Some n \<Rightarrow> toLocaleString env n @ '' objects, ''
             | None \<Rightarrow> []);
          debugInfoBytes = (case debug_info_bytes details of Some b \<Rightarrow> b | None \<Rightarrow> Fin 0);
          otherBytes =
            js_sub (js_sub (js_sub (total_bytes details) (code_area_bytes details))
                           (image_heap_bytes details))
                   debugInfoBytes;
          debugInfoLine = getDebugInfoLine details debugInfoBytes;
          versionLine = getVersionLine info;
          graalLine = getGraalLine info;
          resources = resource_usage data;
          totalTime = getTotalTime resources;
          gcTotalTimeRatio = getTotalTimeRatio resources;
          compareBranch =
            (case compareData of None \<Rightarrow> JNull | Some c \<Rightarrow> env_string (GITHUB_BASE_REF env));
          compareDetails = map_option image_details compareData;
          compareDebugInfoBytes =
            map_option (\<lambda>d. case debug_info_bytes d of Some b \<Rightarrow> b | None \<Rightarrow> Fin 0)
              compareDetails;
          compareOtherBytes =
            (case (compareDetails, compareDebugInfoBytes) of
               (Some d, Some b) \<Rightarrow>
                 Some (js_sub (js_sub (js_sub (total_bytes d) (code_area_bytes d))
                                      (image_heap_bytes d))
                              b)
             | _ \<Rightarrow> None);
          compareResources = map_option resource_usage compareData;
          compareAnalysis = map_option analysis_results compareData;
          compareAnalysisTypes =
            map_option (\<lambda>a. case types a of Some t \<Rightarrow> t | None \<Rightarrow> classes a) compareAnalysis
      in getReportHeader info totalTime context @ NL @
         getEnvironmentTable versionLine graalLine info @ NL @
         getAnalysisTable env analysis analysisTypes compareAnalysis compareAnalysisTypes
           compareBranch @ NL @
         getDetailsTable env details objectCount debugInfoLine otherBytes compareDetails
           compareBranch compareOtherBytes @ NL @
         getResourceUsageTable resources gcTotalTimeRatio compareResources compareBranch @ NL @
         getFooter)"

section \<open>Generating the reports\<close>

text \<open>
  \<^verbatim>\<open>generateReports\<close> reads a file, writes the job summary and calls
  \<^verbatim>\<open>createPRComment\<close>, \<^verbatim>\<open>createTree\<close>, \<^verbatim>\<open>createRef\<close> and
  \<^verbatim>\<open>getPrBaseBranchMetrics\<close> of \<^verbatim>\<open>../utils\<close>. The model returns how the promise
  settles (\<open>Inl\<close>: rejected) together with the effects in the order they happened. What
  the file holds, what \<^verbatim>\<open>JSON.parse\<close> and \<^verbatim>\<open>JSON.stringify\<close> return and how the calls
  of \<^verbatim>\<open>../utils\<close> and of \<^verbatim>\<open>core.summary.write\<close> settle are parameters.
\<close>

datatype effect =
    Warning string
  | ReadBuildOutput
  | JSONParse string
  | SummaryAddRaw string
  | SummaryWrite
  | PRComment string
  | CreateTree string
  | CreateRef string
  | GetPrBaseBranchMetrics

record world =
  world_env :: env
  build_output_file :: "string option"
  JSON_parse :: "string \<Rightarrow> error + BuildOutput"
  JSON_stringify :: "BuildOutput \<Rightarrow> string"
  summary_write :: "error + unit"
  createPRComment :: "string \<Rightarrow> error + unit"
  createTree :: "string \<Rightarrow> error + string"
  createRef :: "string \<Rightarrow> error + unit"
  getPrBaseBranchMetrics :: "nat \<Rightarrow> error + string"

type_synonym 'a io = "effect list \<Rightarrow> (error + 'a) \<times> effect list"

definition io_return :: "'a \<Rightarrow> 'a io" where
  "io_return x = (\<lambda>log. (Inr x, log))"

definition io_bind :: "'a io \<Rightarrow> ('a \<Rightarrow> 'b io) \<Rightarrow> 'b io" where
  "io_bind m f =
     (\<lambda>log. case m log of (Inl e, log') \<Rightarrow> (Inl e, log') | (Inr x, log') \<Rightarrow> f x log')"

definition io_do :: "effect \<Rightarrow> (error + 'a) \<Rightarrow> 'a io" where
  "io_do e r = (\<lambda>log. (r, log @ [e]))"

definition io_throw :: "error \<Rightarrow> 'a io" where
  "io_throw e = (\<lambda>log. (Inl e, log))"

definition areJobReportsEnabled :: "env \<Rightarrow> bool" where
  "areJobReportsEnabled env = (getInput env INPUT_NI_JOB_REPORTS = ''true'')"

definition arePRReportsEnabled :: "env \<Rightarrow> bool" where
  "arePRReportsEnabled env = (isPREvent env \<and> getInput env INPUT_NI_PR_REPORTS = ''true'')"

definition arePRBaseComparisonEnabled :: "env \<Rightarrow> bool" where
  "arePRBaseComparisonEnabled env =
     (isPREvent env \<and> getInput env INPUT_NI_PR_COMPARISON = ''true'')"

text \<open>The body of \<^verbatim>\<open>if (arePRBaseComparisonEnabled())\<close>.\<close>

definition generateReports_compare :: "world \<Rightarrow> BuildOutput \<Rightarrow> unit io" where
  "generateReports_compare w buildOutput =
     io_bind (io_do GetPrBaseBranchMetrics (getPrBaseBranchMetrics w 0)) (\<lambda>text1.
     io_bind (io_do (JSONParse text1) (JSON_parse w text1)) (\<lambda>compareBranchBuildOutput.
     let prReport = createReport (world_env w) buildOutput (Some compareBranchBuildOutput) in
     io_bind (io_do (PRComment prReport) (createPRComment w prReport)) (\<lambda>u.
     io_bind (io_do GetPrBaseBranchMetrics (getPrBaseBranchMetrics w 1)) (\<lambda>text2.
     io_bind (io_do (JSONParse text2) (JSON_parse w text2)) (\<lambda>prMetrics.
     case createPRComparison (world_env w) buildOutput prMetrics of
       Inl e \<Rightarrow> io_throw e
     | Inr comparison \<Rightarrow> io_do (PRComment comparison) (createPRComment w comparison))))))"

text \<open>What follows the check that the build output exists.\<close>

definition generateReports_report :: "world \<Rightarrow> string \<Rightarrow> unit io" where
  "generateReports_report w content =
     (let env = world_env w in
      io_bind (io_do (JSONParse content) (JSON_parse w content)) (\<lambda>buildOutput.
      let report = createReport env buildOutput None in
      io_bind (if areJobReportsEnabled env
               then io_bind (io_do (SummaryAddRaw report) (Inr ())) (\<lambda>u.
                    io_do SummaryWrite (summary_write w))
               else io_return ()) (\<lambda>u.
      io_bind (if arePRReportsEnabled env \<and> \<not> arePRBaseComparisonEnabled env
               then io_do (PRComment report) (createPRComment w report)
               else io_return ()) (\<lambda>u.
      let tree = JSON_stringify w buildOutput in
      io_bind (io_do (CreateTree tree) (createTree w tree)) (\<lambda>treeSha.
      io_bind (io_do (CreateRef treeSha) (createRef w treeSha)) (\<lambda>u.
      if arePRBaseComparisonEnabled env then generateReports_compare w buildOutput
      else io_return ()))))))"

definition generateReports :: "world \<Rightarrow> (error + unit) \<times> effect list" where
  "generateReports w =
     (if areJobReportsEnabled (world_env w) \<or> arePRReportsEnabled (world_env w)
      then (case build_output_file w of
              None \<Rightarrow>
                io_do (Warning (''Unable to find build output data to create a report. '' @
                  ''Are you sure this build job has used GraalVM Native Image?'')) (Inr ()) []
            | Some content \<Rightarrow>
                io_bind (io_do ReadBuildOutput (Inr content)) (generateReports_report w) [])
      else io_return () [])"

section \<open>Snapshots and surroundings used as concrete inputs\<close>

text \<open>
  A small build output: \<open>snapshot t d ty\<close> has \<^verbatim>\<open>total_bytes\<close> \<open>t\<close>, a code area of 400
  bytes, an image heap of 300 bytes, \<^verbatim>\<open>debug_info\<close> \<open>d\<close> and the analysis category
  \<^verbatim>\<open>types\<close> \<open>ty\<close>.
\<close>

definition counts :: "rat \<Rightarrow> AnalysisResult" where
  "counts n = \<lparr>total' = Fin n, reachable = Fin 5, reflection = Fin 1, jni = Fin 1\<rparr>"

definition snapshot :: "number \<Rightarrow> number option \<Rightarrow> AnalysisResult option \<Rightarrow> BuildOutput" where
  "snapshot t d ty =
     \<lparr>general_info =
        \<lparr>name = ''app'', graalvm_version = ''GraalVM 22.3.0'', java_version = Some ''17.0.5'',
         vendor_version = None, c_compiler = Some ''gcc'', garbage_collector = ''Serial GC'',
         graal_compiler = None\<rparr>,
      analysis_results =
        \<lparr>classes = counts 10, types = ty, fields' = counts 20, methods = counts 40\<rparr>,
      image_details =
        \<lparr>total_bytes = t, code_area_bytes = Fin 400, code_area_compilation_units = Fin 7,
         image_heap_bytes = Fin 300, image_heap_objects_count = None,
         image_heap_resources_count = Fin 2, image_heap_resources_bytes = Fin 16,
         debug_info_bytes = d, runtime_compiled_methods = None\<rparr>,
      resource_usage =
        \<lparr>cpu_load = Fin 2, cpu_total_cores = Fin 4, garbage_collection_count = Fin 3,
         garbage_collection_total_secs = Fin 1, memory_system_total = Fin 8192,
         memory_peak_rss_bytes = Fin 2048, total_secs = None\<rparr>\<rparr>"

text \<open>Analysis results whose categories all have a total of 0.\<close>

definition no_counts :: analysisResults where
  "no_counts = \<lparr>classes = counts 0, types = None, fields' = counts 0, methods = counts 0\<rparr>"

text \<open>
  The surroundings of a pull-request run from \<^verbatim>\<open>feature\<close> to \<^verbatim>\<open>main\<close>, every report input
  set to \<^verbatim>\<open>true\<close> and the comparison parameter \<open>p\<close>.
\<close>

definition pr_env :: "string \<Rightarrow> env" where
  "pr_env p =
     \<lparr>toLocaleString = numToString, GITHUB_BASE_REF = Some ''main'',
      GITHUB_HEAD_REF = Some ''feature'',
      github_context =
        \<lparr>job = ''build'', serverUrl = ''https://github.com'', repo_owner = ''o'', repo_repo = ''r'',
         runId = Fin 1, runNumber = Fin 1\<rparr>,
      getInput = (\<lambda>k. if k = INPUT_NI_PR_COMPARISON_PARAMETERS then p else ''true''),
      isPREvent = True\<rparr>"

text \<open>A run whose build never wrote the build output file.\<close>

definition no_output_world :: world where
  "no_output_world =
     \<lparr>world_env = pr_env [], build_output_file = None,
      JSON_parse = (\<lambda>s. Inl SyntaxError), JSON_stringify = (\<lambda>b. []),
      summary_write = Inr (), createPRComment = (\<lambda>s. Inr ()), createTree = (\<lambda>s. Inr []),
      createRef = (\<lambda>s. Inr ()), getPrBaseBranchMetrics = (\<lambda>n. Inl (Rejected []))\<rparr>"

section \<open>Notions of the specification\<close>

text \<open>
  The claims speak of text "formatted to \<open>f\<close> decimal places", of \<^verbatim>\<open>floor\<close>, of
  \<^verbatim>\<open>current \<ge> baseline\<close> and of the unit a byte count is shown in. These are defined here
  from the words of the specification, to be compared with what the source computes.
  \<open>is_decimal f s\<close>: \<open>s\<close> is one or more digits, a point and \<open>f\<close> digits.
\<close>

definition is_digit :: "char \<Rightarrow> bool" where
  "is_digit c = (c \<in> set ''0123456789'')"

definition is_decimal :: "nat \<Rightarrow> string \<Rightarrow> bool" where
  "is_decimal f s =
     (Suc f < length s \<and> list_all is_digit (take (length s - Suc f) s) \<and>
      s ! (length s - Suc f) = CHR ''.'' \<and> list_all is_digit (drop (length s - f) s))"

definition is_signed_decimal :: "nat \<Rightarrow> string \<Rightarrow> bool" where
  "is_signed_decimal f s =
     (case s of
        [] \<Rightarrow> False
      | c # r \<Rightarrow> if c = CHR ''-'' then is_decimal f r else is_decimal f s)"

text \<open>\<^verbatim>\<open>Math.floor\<close> and the comparison \<^verbatim>\<open>>=\<close>.\<close>

fun js_floor :: "number \<Rightarrow> number" where
  "js_floor (Fin q) = Fin (of_int \<lfloor>q\<rfloor>)"
| "js_floor x = x"

definition js_ge :: "number \<Rightarrow> number \<Rightarrow> bool" where
  "js_ge a b = (a \<noteq> NaN \<and> b \<noteq> NaN \<and> \<not> js_lt a b)"

text \<open>The unit chosen by the binary thresholds, and the byte count in that unit.\<close>

definition unit_of :: "number \<Rightarrow> string" where
  "unit_of bytes =
     (if js_lt (js_abs bytes) (Fin 1024) then ''B''
      else if js_lt (js_abs bytes) (Fin (1024 ^ 2)) then ''KB''
      else if js_lt (js_abs bytes) (Fin (1024 ^ 3)) then ''MB''
      else ''GB'')"

definition in_unit :: "number \<Rightarrow> number" where
  "in_unit bytes =
     (if js_lt (js_abs bytes) (Fin 1024) then bytes
      else if js_lt (js_abs bytes) (Fin (1024 ^ 2)) then js_div bytes (Fin 1024)
      else if js_lt (js_abs bytes) (Fin (1024 ^ 3)) then js_div bytes (Fin (1024 ^ 2))
      else js_div bytes (Fin (1024 ^ 3)))"

text \<open>The percentage \<open>|current - baseline| / baseline * 100\<close>, as computed on Numbers.\<close>

definition percent_change :: "number \<Rightarrow> number \<Rightarrow> number" where
  "percent_change baseline current =
     js_mul (js_div (js_abs (js_sub current baseline)) baseline) (Fin 100)"

text \<open>
  The derived "other data" of a snapshot: its total minus its code area, its image heap
  and its own debug info (0 when it has none).
\<close>

definition other_bytes :: "image_details \<Rightarrow> number" where
  "other_bytes d =
     js_sub (js_sub (js_sub (total_bytes d) (code_area_bytes d)) (image_heap_bytes d))
       (case debug_info_bytes d of Some b \<Rightarrow> b | None \<Rightarrow> Fin 0)"

text \<open>
  A body row of a table by its cells. A row of the Analysis Results table holds a
  category and, for types, fields and methods, a column: a count, a percentage and the
  comparison cell (empty outside comparison mode). A row of the Image Details table holds
  a category, a size, a percentage, the comparison cell and the details.
\<close>

definition table_link :: "string \<Rightarrow> string \<Rightarrow> string" where
  \<open>table_link anchor label =
     ''<a href="'' @ DOCS_BASE @ anchor @ ''" target="_blank">'' @ label @ ''</a>''\<close>

type_synonym column = "string \<times> string \<times> string"

fun analysis_row :: "string \<Rightarrow> column \<Rightarrow> column \<Rightarrow> column \<Rightarrow> string" where
  \<open>analysis_row category (count1, percent1, compare1) (count2, percent2, compare2)
       (count3, percent3, compare3) =
     ''    <tr>'' @ NL @
     ''      <td align="left">'' @ category @ ''</td>'' @ NL @
     ''      <td align="right">'' @ count1 @ ''</td>'' @ NL @
     ''      <td align="right">'' @ percent1 @ ''</td>'' @ compare1 @ NL @
     ''      <td align="right">'' @ count2 @ ''</td>'' @ NL @
     ''      <td align="right">'' @ percent2 @ ''</td>'' @ compare2 @ NL @
     ''      <td align="right">'' @ count3 @ ''</td>'' @ NL @
     ''      <td align="right">'' @ percent3 @ ''</td>'' @ compare3 @ NL @
     ''    </tr>''\<close>

definition details_row :: "string \<Rightarrow> string \<Rightarrow> string \<Rightarrow> string \<Rightarrow> string \<Rightarrow> string" where
  \<open>details_row category amount percent compare details =
     ''    <tr>'' @ NL @
     ''      <td align="left">'' @ category @ ''</td>'' @ NL @
     ''      <td align="right">'' @ amount @ ''</td>'' @ NL @
     ''      <td align="right">'' @ percent @ ''</td>'' @ compare @ NL @
     ''      <td align="left">'' @ details @ ''</td>'' @ NL @
     ''    </tr>''\<close>




section \<open>Evaluation\<close>

text \<open>
  Concrete inputs are evaluated by rewriting with the definitions. The floor of a quotient
  of numerals is computed by integer division.
\<close>

lemma floor_rat_numeral:
  "\<lfloor>(numeral a :: rat) / numeral b\<rfloor> = numeral a div numeral b"
  using floor_divide_of_int_eq [of "numeral a" "numeral b", where ?'a = rat] by simp

lemma floor_rat_one_numeral:
  "\<lfloor>(1 :: rat) / numeral b\<rfloor> = 1 div numeral b"
  using floor_divide_of_int_eq [of 1 "numeral b", where ?'a = rat] by simp

lemma ceiling_rat_numeral:
  "\<lceil>(numeral a :: rat) / numeral b\<rceil> = - (- numeral a div numeral b)"
  using floor_divide_of_int_eq [of "- numeral a" "numeral b", where ?'a = rat]
  by (simp add: ceiling_def)

lemma ceiling_rat_one_numeral:
  "\<lceil>(1 :: rat) / numeral b\<rceil> = - (- 1 div numeral b)"
  using floor_divide_of_int_eq [of "- 1" "numeral b", where ?'a = rat]
  by (simp add: ceiling_def)

lemmas num_eval =
  floor_rat_numeral floor_rat_one_numeral ceiling_rat_numeral ceiling_rat_one_numeral
  ilog2.simps clog2_def pow2_def exponent_def round_half_even_def round64_def fl_def js_lit_def
  Let_def signed_inf_def signed_zero_def js_div_def js_mul_def js_sub_def js_mod_def js_gt_def
  js_truthy_def

lemmas str_eval =
  digit_def show_nat.simps fixed_digits_def round_half_up_def ilog10.simps clog10_def pow10_def
  exponent10_def digits_k_def shortest.simps show_exp_def show_pos_def

lemmas rep_eval =
  BYTES_TO_KiB_def BYTES_TO_MiB_def BYTES_TO_GiB_def toPercent_def getDiffPercent_def
  bytesToHuman_def secondsToHuman_def normalizeValue_def

lemmas env_eval =
  pr_env_def snapshot_def counts_def getPRComparePara_def toLowerCase_def lower_char_def
  INPUT_NI_PR_COMPARISON_PARAMETERS_def INPUT_NI_JOB_REPORTS_def INPUT_NI_PR_REPORTS_def
  INPUT_NI_PR_COMPARISON_def areJobReportsEnabled_def arePRReportsEnabled_def
  arePRBaseComparisonEnabled_def


section \<open>Digits and decimals\<close>

lemma digit_is_digit: "d < 10 \<Longrightarrow> is_digit (digit d)"
proof -
  assume "d < 10"
  then have "d \<in> {0, 1, 2, 3, 4, 5, 6, 7, 8, 9}" by auto
  then show ?thesis by (auto simp: digit_def is_digit_def)
qed

lemma show_nat_digits: "list_all is_digit (show_nat n)"
proof (induction n rule: show_nat.induct)
  case (1 n)
  show ?case
  proof (cases "n < 10")
    case True
    then show ?thesis by (subst show_nat.simps) (simp add: digit_is_digit)
  next
    case False
    with 1 have "list_all is_digit (show_nat (n div 10))" by simp
    moreover have "is_digit (digit (n mod 10))" by (rule digit_is_digit) simp
    ultimately show ?thesis using False by (subst show_nat.simps) simp
  qed
qed

lemma show_nat_nonempty: "show_nat n \<noteq> []"
  by (subst show_nat.simps) simp

lemma is_decimal_append:
  assumes "ds \<noteq> []" "list_all is_digit ds" "list_all is_digit fs" "length fs = f"
  shows "is_decimal f (ds @ ''.'' @ fs)"
  using assms by (cases ds) (auto simp: is_decimal_def nth_append)

lemma fixed_digits_decimal:
  assumes "0 < f"
  shows "is_decimal f (fixed_digits n f)"
proof -
  define m where "m = replicate (f + 1 - length (show_nat n)) (CHR ''0'') @ show_nat n"
  have len: "f < length m"
    using show_nat_nonempty [of n] by (cases "show_nat n") (auto simp: m_def)
  have "list_all is_digit (replicate k (CHR ''0''))" for k
    by (induction k) (simp_all add: is_digit_def)
  then have dig: "list_all is_digit m"
    by (simp add: m_def show_nat_digits)
  have eq: "fixed_digits n f = take (length m - f) m @ ''.'' @ drop (length m - f) m"
    using assms by (simp add: fixed_digits_def Let_def m_def)
  have "is_decimal f (take (length m - f) m @ ''.'' @ drop (length m - f) m)"
  proof (rule is_decimal_append)
    show "take (length m - f) m \<noteq> []" using len by (cases m) auto
    show "list_all is_digit (take (length m - f) m)"
      using dig by (auto simp: list_all_iff dest: in_set_takeD)
    show "list_all is_digit (drop (length m - f) m)"
      using dig by (auto simp: list_all_iff dest: in_set_dropD)
    show "length (drop (length m - f) m) = f" using len by simp
  qed
  with eq show ?thesis by simp
qed

lemma digit_not_minus: "is_digit c \<Longrightarrow> c \<noteq> CHR ''-''"
  by (auto simp: is_digit_def)

lemma is_decimal_signed: "is_decimal f s \<Longrightarrow> is_signed_decimal f s"
proof -
  assume d: "is_decimal f s"
  then obtain c r where s: "s = c # r" by (cases s) (auto simp: is_decimal_def)
  from d s have "is_digit c"
    by (cases "length r - f") (auto simp: is_decimal_def)
  then have "c \<noteq> CHR ''-''" by (rule digit_not_minus)
  with d s show ?thesis by (simp add: is_signed_decimal_def)
qed

lemma toFixed_Fin_decimal:
  assumes "\<bar>q\<bar> < 10 ^ 21" "0 < f"
  shows "is_signed_decimal f (toFixed (Fin q) f)"
proof (cases "q < 0")
  case True
  with assms show ?thesis
    by (simp add: is_signed_decimal_def fixed_digits_decimal)
next
  case False
  with assms show ?thesis
    by (simp add: is_decimal_signed fixed_digits_decimal)
qed

lemma toFixed_decimal:
  assumes "js_lt (js_abs x) (Fin (10 ^ 21))" "0 < f"
  shows "is_signed_decimal f (toFixed x f)"
proof (cases x)
  case (Fin q)
  with assms show ?thesis by (simp add: toFixed_Fin_decimal del: toFixed.simps)
next
  case NegZero
  with assms show ?thesis by (simp add: is_decimal_signed fixed_digits_decimal)
qed (use assms in simp_all)

lemma toFixed_negative:
  assumes "x = NegInf \<or> (\<exists>r. 0 < r \<and> x = Fin (- r))"
  shows "\<exists>rest. toFixed x f = ''-'' @ rest"
  using assms by auto

section \<open>Bounds on the rounding\<close>

lemma ilog2_le: "1 \<le> n \<Longrightarrow> 2 ^ ilog2 n \<le> n"
proof (induction n rule: ilog2.induct)
  case (1 n)
  show ?case
  proof (cases "n < 2")
    case True
    with 1(2) show ?thesis by (subst ilog2.simps) simp
  next
    case False
    then have "1 \<le> n div 2" by simp
    with 1(1) False have "2 ^ ilog2 (n div 2) \<le> n div 2" by simp
    then have "2 * 2 ^ ilog2 (n div 2) \<le> n" by simp
    with False show ?thesis by (subst ilog2.simps) simp
  qed
qed

lemma round_half_even_bounds:
  "of_int (round_half_even y) \<le> y + 1 / 2" "y - 1 / 2 \<le> of_int (round_half_even y)"
proof -
  define f where "f = \<lfloor>y\<rfloor>"
  have a: "of_int f \<le> y" and b: "y < of_int f + 1"
    by (simp_all add: f_def) linarith
  have r: "round_half_even y =
      (if y - of_int f < 1 / 2 then f else if 1 / 2 < y - of_int f then f + 1
       else if even f then f else f + 1)"
    by (simp add: round_half_even_def Let_def f_def)
  show "of_int (round_half_even y) \<le> y + 1 / 2"
    unfolding r using a b by (auto split: if_splits)
  show "y - 1 / 2 \<le> of_int (round_half_even y)"
    unfolding r using a b by (auto split: if_splits)
qed

lemma pow2_pos: "0 < pow2 k"
  by (simp add: pow2_def)

lemma pow2_exponent_le:
  assumes "1 \<le> x"
  shows "pow2 (exponent x - 52) \<le> x"
proof -
  define n where "n = nat \<lfloor>x\<rfloor>"
  have n1: "1 \<le> n" using assms by (simp add: n_def le_nat_iff)
  have e: "exponent x = int (ilog2 n)" using assms by (simp add: exponent_def n_def)
  have "(2::rat) ^ ilog2 n \<le> of_nat n"
    using ilog2_le [OF n1] by (metis of_nat_le_iff of_nat_numeral of_nat_power)
  also have "of_nat n \<le> x" using assms by (simp add: n_def)
  finally have top: "(2::rat) ^ ilog2 n \<le> x" .
  have "pow2 (int (ilog2 n) - 52) \<le> 2 ^ ilog2 n"
  proof (cases "52 \<le> ilog2 n")
    case True
    then have "nat (int (ilog2 n) - 52) \<le> ilog2 n" by simp
    then have "(2::rat) ^ nat (int (ilog2 n) - 52) \<le> 2 ^ ilog2 n"
      by (intro power_increasing) simp_all
    with True show ?thesis by (simp add: pow2_def)
  next
    case False
    have "(1::rat) / 2 ^ nat (52 - int (ilog2 n)) \<le> 1" by simp
    also have "(1::rat) \<le> 2 ^ ilog2 n" by simp
    finally show ?thesis using False by (simp add: pow2_def)
  qed
  with top e show ?thesis by simp
qed

lemma round64_bounds:
  assumes "1 \<le> x"
  shows "x / 2 \<le> round64 x" "round64 x \<le> 2 * x"
proof -
  define p where "p = pow2 (exponent x - 52)"
  have p: "0 < p" "p \<le> x" using pow2_pos pow2_exponent_le [OF assms] by (simp_all add: p_def)
  have e0: "0 \<le> exponent x" using assms by (simp add: exponent_def)
  then have q: "max (exponent x - 52) (- 1074) = exponent x - 52" by simp
  have r: "round64 x = of_int (round_half_even (x / p)) * p"
    by (simp add: round64_def Let_def q p_def)
  have "of_int (round_half_even (x / p)) * p \<le> (x / p + 1 / 2) * p"
    using round_half_even_bounds(1) [of "x / p"] p(1) by (simp add: mult_right_mono)
  also have "\<dots> = x + p / 2" using p(1) by (simp add: field_simps)
  finally show "round64 x \<le> 2 * x" using p r by simp
  have "(x / p - 1 / 2) * p \<le> of_int (round_half_even (x / p)) * p"
    using round_half_even_bounds(2) [of "x / p"] p(1) by (simp add: mult_right_mono)
  moreover have "(x / p - 1 / 2) * p = x - p / 2" using p(1) by (simp add: field_simps)
  ultimately show "x / 2 \<le> round64 x" using p r by simp
qed

lemma round64_nonneg:
  assumes "0 \<le> x"
  shows "0 \<le> round64 x"
proof -
  define p where "p = pow2 (max (exponent x - 52) (- 1074))"
  have p: "0 < p" by (simp add: p_def pow2_pos)
  have "- 1 / 2 \<le> x / p - 1 / 2" using assms p by simp
  also have "\<dots> \<le> of_int (round_half_even (x / p))" by (rule round_half_even_bounds)
  finally have "(- 1 :: rat) < of_int (round_half_even (x / p))" by simp
  then have "0 \<le> round_half_even (x / p)" by linarith
  then show ?thesis using p by (simp add: round64_def Let_def p_def)
qed

lemma fl_False_cases:
  assumes "0 \<le> x"
  shows "fl False x = PosInf \<or> (\<exists>r. 0 \<le> r \<and> fl False x = Fin r)"
  using round64_nonneg [OF assms] by (auto simp: fl_def Let_def)

lemma fl_ge_1_cases:
  assumes "1 \<le> x"
  shows "(fl neg x = signed_inf neg \<and> 2 ^ 1024 \<le> 2 * x) \<or>
    (\<exists>r. 0 < r \<and> r \<le> 2 * x \<and> fl neg x = Fin (if neg then - r else r))"
proof -
  have "0 < round64 x" "round64 x \<le> 2 * x"
    using round64_bounds [OF assms] assms by simp_all
  then show ?thesis using assms by (auto simp: fl_def Let_def signed_inf_def)
qed

lemma js_div_scaled_cases:
  assumes "d \<le> \<bar>q\<bar>" "0 < d"
  shows "(js_div (Fin q) (Fin d) = signed_inf (q < 0) \<and> 2 ^ 1024 \<le> 2 * (\<bar>q\<bar> / d)) \<or>
    (\<exists>r. 0 < r \<and> r \<le> 2 * (\<bar>q\<bar> / d) \<and>
         js_div (Fin q) (Fin d) = Fin (if q < 0 then - r else r))"
proof -
  have "1 \<le> \<bar>q\<bar> / d" using assms by simp
  from fl_ge_1_cases [OF this, of "q < 0"] assms show ?thesis
    by (auto simp: js_div_def)
qed

section \<open>Division by zero\<close>





section \<open>The rows of the tables by their cells\<close>

lemmas row_defs =
  getAnalysisTable_Reachable_def getAnalysisTable_Reflection_def getAnalysisTable_JNI_def
  getAnalysisTable_Loaded_def getDetailsTable_CodeArea_def getDetailsTable_ImageHeap_def
  getDetailsTable_OtherData_def getDetailsTable_Total_def getDebugInfoLine_def
  details_row_def table_link_def

lemma analysis_rows:
  \<open>getAnalysisTable_Loaded env analysis analysisTypes compareAnalysis compareAnalysisType =
     analysis_row (table_link ''#glossary-reachability'' ''Loaded'')
       (toLocaleString env (total' analysisTypes),
        ''100.000%'',
        (case compareAnalysisType of None \<Rightarrow> []
          | Some c \<Rightarrow> getCompareColumn (total' analysisTypes) (Some (total' c)) (Fin 98) (Fin 108) True))
       (toLocaleString env (total' (fields' analysis)),
        ''100.000%'',
        (case compareAnalysis of None \<Rightarrow> []
          | Some c \<Rightarrow> getCompareColumn (total' (fields' analysis)) (Some (total' (fields' c)))
          (Fin 98) (Fin 108) True))
       (toLocaleString env (total' (methods analysis)),
        ''100.000%'',
        (case compareAnalysis of None \<Rightarrow> []
          | Some c \<Rightarrow> getCompareColumn (total' (methods analysis)) (Some (total' (methods c)))
          (Fin 98) (Fin 108) True)) @ NL\<close>
  \<open>getAnalysisTable_Reachable env analysis analysisTypes compareAnalysis compareAnalysisType =
     analysis_row (table_link ''#glossary-reachability'' ''Reachable'')
       (toLocaleString env (reachable analysisTypes),
        toPercent (reachable analysisTypes) (total' analysisTypes),
        (case compareAnalysisType of None \<Rightarrow> []
          | Some c \<Rightarrow> getCompareColumn (reachable analysisTypes) (Some (reachable c))
          (Fin 98) (Fin 108) True))
       (toLocaleString env (reachable (fields' analysis)),
        toPercent (reachable (fields' analysis)) (total' (fields' analysis)),
        (case compareAnalysis of None \<Rightarrow> []
          | Some c \<Rightarrow> getCompareColumn (reachable (fields' analysis)) (Some (reachable (fields' c)))
          (Fin 98) (Fin 108) True))
       (toLocaleString env (reachable (methods analysis)),
        toPercent (reachable (methods analysis)) (total' (methods analysis)),
        (case compareAnalysis of None \<Rightarrow> []
          | Some c \<Rightarrow> getCompareColumn (reachable (methods analysis)) (Some (reachable (methods c)))
          (Fin 98) (Fin 108) True)) @ NL\<close>
  \<open>getAnalysisTable_Reflection env analysis analysisTypes compareAnalysis compareAnalysisType =
     analysis_row (table_link ''#glossary-reflection-registrations'' ''Reflection'')
       (toLocaleString env (reflection analysisTypes),
        toPercent (reflection analysisTypes) (total' analysisTypes),
        (case compareAnalysisType of None \<Rightarrow> []
          | Some c \<Rightarrow> getCompareColumn (reflection analysisTypes) (Some (reflection c))
          (Fin 98) (Fin 108) True))
       (toLocaleString env (reflection (fields' analysis)),
        toPercent (reflection (fields' analysis)) (total' (fields' analysis)),
        (case compareAnalysis of None \<Rightarrow> []
          | Some c \<Rightarrow> getCompareColumn (reflection (fields' analysis))
          (Some (reflection (fields' c))) (Fin 98) (Fin 108) True))
       (toLocaleString env (reflection (methods analysis)),
        toPercent (reflection (methods analysis)) (total' (methods analysis)),
        (case compareAnalysis of None \<Rightarrow> []
          | Some c \<Rightarrow> getCompareColumn (reflection (methods analysis))
          (Some (reflection (methods c))) (Fin 98) (Fin 108) True)) @ NL\<close>
  \<open>getAnalysisTable_JNI env analysis analysisTypes compareAnalysis compareAnalysisType =
     analysis_row (table_link ''#glossary-jni-access-registrations'' ''JNI'')
       (toLocaleString env (jni analysisTypes),
        toPercent (jni analysisTypes) (total' analysisTypes),
        (case compareAnalysisType of None \<Rightarrow> []
          | Some c \<Rightarrow> getCompareColumn (jni analysisTypes) (Some (jni c)) (Fin 98) (Fin 108) True))
       (toLocaleString env (jni (fields' analysis)),
        toPercent (jni (fields' analysis)) (total' (fields' analysis)),
        (case compareAnalysis of None \<Rightarrow> []
          | Some c \<Rightarrow> getCompareColumn (jni (fields' analysis)) (Some (jni (fields' c)))
          (Fin 98) (Fin 108) True))
       (toLocaleString env (jni (methods analysis)),
        toPercent (jni (methods analysis)) (total' (methods analysis)),
        (case compareAnalysis of None \<Rightarrow> []
          | Some c \<Rightarrow> getCompareColumn (jni (methods analysis)) (Some (jni (methods c)))
          (Fin 98) (Fin 108) True)) @ NL\<close>
  by (simp_all add: row_defs)

lemma details_rows:
  \<open>getDetailsTable_Total details compareDetails =
     details_row ''Total'' (''<strong>'' @ bytesToHuman (total_bytes details) @ ''</strong>'')
       ''100.000%''
       (case compareDetails of None \<Rightarrow> []
        | Some c \<Rightarrow> getCompareColumnBytes (total_bytes details) (Some (total_bytes c))
            (Fin 98) (Fin 110) True)
       [] @ NL\<close>
  \<open>getDetailsTable_CodeArea env details compareDetails =
     details_row (table_link ''#glossary-code-area'' ''Code area'')
       (bytesToHuman (code_area_bytes details))
       (toPercent (code_area_bytes details) (total_bytes details))
       (case compareDetails of None \<Rightarrow> []
        | Some c \<Rightarrow> getCompareColumnBytes (code_area_bytes details) (Some (code_area_bytes c))
            (Fin 98) (Fin 110) True)
       (toLocaleString env (code_area_compilation_units details) @ '' compilation units'') @ NL\<close>
  \<open>getDetailsTable_ImageHeap env details objectCount compareDetails =
     details_row (table_link ''#glossary-image-heap'' ''Image heap'')
       (bytesToHuman (image_heap_bytes details))
       (toPercent (image_heap_bytes details) (total_bytes details))
       (case compareDetails of None \<Rightarrow> []
        | Some c \<Rightarrow> getCompareColumnBytes (image_heap_bytes details) (Some (image_heap_bytes c))
            (Fin 98) (Fin 110) True)
       (objectCount @ bytesToHuman (image_heap_resources_bytes details) @ '' for '' @
        toLocaleString env (image_heap_resources_count details) @ '' resources'')\<close>
  \<open>getDetailsTable_OtherData details otherBytes compareOtherBytes =
     details_row (table_link ''#glossary-other-data'' ''Other data'')
       (bytesToHuman otherBytes) (toPercent otherBytes (total_bytes details))
       (case compareOtherBytes of None \<Rightarrow> []
        | Some c \<Rightarrow> getCompareColumnBytes otherBytes (Some c) (Fin 98) (Fin 110) True)
       [] @ NL\<close>
  \<open>debug_info_bytes details \<noteq> None \<Longrightarrow>
   getDebugInfoLine details debugInfoBytes =
     NL @ details_row (table_link ''#glossary-debug-info'' ''Debug info'')
       (bytesToHuman debugInfoBytes) (toPercent debugInfoBytes (total_bytes details)) [] []\<close>
  by (simp_all add: row_defs)



section \<open>The bounds of the Image Details rows\<close>









section \<open>The threshold classifier at a bound\<close>

text \<open>
  C2. The three conditions of \<^verbatim>\<open>getCompareColumn\<close> are \<open>ratio < lower\<close>,
  \<open>lower < ratio \<and> ratio < upper\<close> and \<open>ratio > upper\<close>: a ratio equal to a bound meets
  none of them. For the current value 98 and the baseline 100 the computed ratio
  \<open>98 / 100 * 100\<close> is exactly 98, the lower bound of every call of the source, and the
  cell holds its four line breaks and neither the delta nor the percentage.
\<close>

theorem getCompareColumn_ratio_at_lower_bound:
  \<open>getCompareColumn (Fin 98) (Some (Fin 100)) (Fin 98) (Fin 108) True =
     ''<td align="left">'' @ NL @ NL @ NL @ NL @ ''</td>''\<close>
  by (simp add: getCompareColumn_def num_eval cong: let_weak_cong)

section \<open>The chart comparison and the base snapshot\<close>

text \<open>
  C4. \<^verbatim>\<open>createPRComparison\<close> chooses the base snapshot's \<^verbatim>\<open>types\<close> or \<^verbatim>\<open>classes\<close>
  by looking at the recent snapshot (\<^verbatim>\<open>analysisRecent.types ? analysisBase.types : analysisBase.classes\<close>).
  When the recent snapshot has \<^verbatim>\<open>types\<close> and the base snapshot has none, the chart of
  the analysis results reads a property of \<^verbatim>\<open>undefined\<close>: the comparison throws a
  \<^verbatim>\<open>TypeError\<close> instead of rendering the base snapshot's \<^verbatim>\<open>classes\<close>.
\<close>

theorem createPRComparison_base_without_types:
  "createPRComparison (pr_env ''analysis results'')
     (snapshot (Fin 1000) None (Some (counts 10))) (snapshot (Fin 1000) None None) =
   Inl TypeError"
  by (simp add: createPRComparison_def createComparedAnalysisResultsDiagramm_def env_eval Let_def)

text \<open>
  C5. \<^verbatim>\<open>createPRComparison\<close> takes the debug info bytes of the recent snapshot from
  the base snapshot (\<^verbatim>\<open>debugInfoBytesRecent = detailsBase.debug_info ? ...\<close>). For a recent
  snapshot of 1000 bytes with a code area of 400, an image heap of 300 and debug info of
  100, compared with a base snapshot without debug info, the chart is drawn with 300
  bytes of other data for the recent snapshot; 1000 - 400 - 300 - 100 is 200.
\<close>

theorem createPRComparison_other_bytes_of_recent:
  "createPRComparison (pr_env ''image details'')
     (snapshot (Fin 1000) (Some (Fin 100)) None) (snapshot (Fin 1000) None None) =
   Inr (''## GraalVM Native Image PR comparison'' @ NL @ NL @ NL @
        createComparedDetailsDiagramm (Some ''feature'') (Some ''main'')
          (image_details (snapshot (Fin 1000) (Some (Fin 100)) None))
          (image_details (snapshot (Fin 1000) None None))
          (Fin 300) (Fin 300) @ NL @ NL @ NL @
        getFooter) \<and>
   other_bytes (image_details (snapshot (Fin 1000) (Some (Fin 100)) None)) = Fin 200"
  by (simp add: createPRComparison_def other_bytes_def env_eval num_eval cong: let_weak_cong)

section \<open>A missing build output\<close>

text \<open>
  C9. When job reports or pull-request reports are enabled and the build output file
  does not exist, \<^verbatim>\<open>generateReports\<close> resolves, and the one thing it has done is the
  warning: nothing was read or parsed, no report was built, and neither the summary nor
  a comment, tree or ref was written.
\<close>

theorem generateReports_without_build_output:
  assumes "areJobReportsEnabled (world_env w) \<or> arePRReportsEnabled (world_env w)"
    and "build_output_file w = None"
  shows "generateReports w =
    (Inr (),
     [Warning (''Unable to find build output data to create a report. '' @
        ''Are you sure this build job has used GraalVM Native Image?'')])"
  using assms by (simp add: generateReports_def io_do_def)

theorem generateReports_without_build_output_witness:
  "areJobReportsEnabled (world_env no_output_world) \<and>
   build_output_file no_output_world = None \<and>
   generateReports no_output_world =
    (Inr (),
     [Warning (''Unable to find build output data to create a report. '' @
        ''Are you sure this build job has used GraalVM Native Image?'')])"
proof -
  have enabled: "areJobReportsEnabled (world_env no_output_world)"
    by (simp add: no_output_world_def env_eval)
  have absent: "build_output_file no_output_world = None"
    by (simp add: no_output_world_def)
  from generateReports_without_build_output [of no_output_world] enabled absent
  show ?thesis by simp
qed

section \<open>Zero denominators\<close>




section \<open>bytesToHuman\<close>

lemma BYTES_TO_MiB_eq: "BYTES_TO_MiB = Fin (1024 ^ 2)"
  by (simp add: BYTES_TO_MiB_def num_eval cong: let_weak_cong)

lemma BYTES_TO_GiB_eq: "BYTES_TO_GiB = Fin (1024 ^ 3)"
  by (simp add: BYTES_TO_GiB_def num_eval cong: let_weak_cong)

lemma bytesToHuman_in_unit: "bytesToHuman bytes = toFixed (in_unit bytes) 2 @ unit_of bytes"
  by (simp add: bytesToHuman_def in_unit_def unit_of_def BYTES_TO_KiB_def BYTES_TO_MiB_eq
      BYTES_TO_GiB_eq)

lemma in_unit_decimal:
  assumes "js_lt (js_abs (js_div bytes (Fin (1024 ^ 3)))) (Fin (10 ^ 21))"
  shows "is_signed_decimal 2 (toFixed (in_unit bytes) 2)"
proof (cases bytes)
  case (Fin q)
  consider "\<bar>q\<bar> < 1024" | "1024 \<le> \<bar>q\<bar>" "\<bar>q\<bar> < 1024 ^ 2"
    | "1024 ^ 2 \<le> \<bar>q\<bar>" "\<bar>q\<bar> < 1024 ^ 3" | "1024 ^ 3 \<le> \<bar>q\<bar>"
    by linarith
  then show ?thesis
  proof cases
    case 1
    then have "in_unit bytes = Fin q" "\<bar>q\<bar> < 10 ^ 21" by (simp_all add: in_unit_def Fin)
    then show ?thesis by (simp add: toFixed_Fin_decimal del: toFixed.simps)
  next
    case 2
    then have u: "in_unit bytes = js_div (Fin q) (Fin 1024)" by (simp add: in_unit_def Fin)
    from js_div_scaled_cases [of 1024 q] 2
    have "js_lt (js_abs (js_div (Fin q) (Fin 1024))) (Fin (10 ^ 21))"
      by (auto simp: signed_inf_def)
    then show ?thesis unfolding u by (rule toFixed_decimal) simp
  next
    case 3
    then have u: "in_unit bytes = js_div (Fin q) (Fin (1024 ^ 2))"
      by (simp add: in_unit_def Fin)
    from js_div_scaled_cases [of "1024 ^ 2" q] 3
    have "js_lt (js_abs (js_div (Fin q) (Fin (1024 ^ 2)))) (Fin (10 ^ 21))"
      by (auto simp: signed_inf_def)
    then show ?thesis unfolding u by (rule toFixed_decimal) simp
  next
    case 4
    then have u: "in_unit bytes = js_div bytes (Fin (1024 ^ 3))"
      by (simp add: in_unit_def Fin)
    from assms show ?thesis unfolding u by (rule toFixed_decimal) simp
  qed
next
  case NegZero
  then have "in_unit bytes = NegZero" by (simp add: in_unit_def)
  then show ?thesis by (simp add: is_decimal_signed fixed_digits_decimal)
qed (use assms in \<open>simp_all add: js_div_def signed_inf_def\<close>)

lemma in_unit_negative:
  assumes "js_lt bytes (Fin 0)"
  shows "in_unit bytes = NegInf \<or> (\<exists>r. 0 < r \<and> in_unit bytes = Fin (- r))"
proof (cases bytes)
  case (Fin q)
  with assms have neg: "q < 0" by simp
  consider "\<bar>q\<bar> < 1024" | "1024 \<le> \<bar>q\<bar>" "\<bar>q\<bar> < 1024 ^ 2"
    | "1024 ^ 2 \<le> \<bar>q\<bar>" "\<bar>q\<bar> < 1024 ^ 3" | "1024 ^ 3 \<le> \<bar>q\<bar>"
    by linarith
  then show ?thesis
  proof cases
    case 1
    then have "in_unit bytes = Fin (- (- q))" by (simp add: in_unit_def Fin)
    with neg show ?thesis by (intro disjI2 exI [of _ "- q"]) simp
  next
    case 2
    then have u: "in_unit bytes = js_div (Fin q) (Fin 1024)" by (simp add: in_unit_def Fin)
    from js_div_scaled_cases [of 1024 q] 2 neg show ?thesis
      unfolding u by (auto simp: signed_inf_def)
  next
    case 3
    then have u: "in_unit bytes = js_div (Fin q) (Fin (1024 ^ 2))"
      by (simp add: in_unit_def Fin)
    from js_div_scaled_cases [of "1024 ^ 2" q] 3 neg show ?thesis
      unfolding u by (auto simp: signed_inf_def)
  next
    case 4
    then have u: "in_unit bytes = js_div (Fin q) (Fin (1024 ^ 3))"
      by (simp add: in_unit_def Fin)
    from js_div_scaled_cases [of "1024 ^ 3" q] 4 neg show ?thesis
      unfolding u by (auto simp: signed_inf_def)
  qed
next
  case NegInf
  then show ?thesis by (simp add: in_unit_def js_div_def signed_inf_def)
qed (use assms in simp_all)

text \<open>
  C6, as the source has it. For every Number, \<^verbatim>\<open>bytesToHuman\<close> prints the byte count in
  the unit chosen by the thresholds 1024, \<open>1024\<^sup>2\<close> and \<open>1024\<^sup>3\<close> on its absolute value,
  with \<^verbatim>\<open>toFixed(2)\<close>, followed by the unit. When the quotient by \<open>1024\<^sup>3\<close> is below
  \<open>10\<^sup>2\<^sup>1\<close> in magnitude, the text before the unit is an optional minus sign, digits, a
  point and two digits. The text of a negative byte count starts with a minus sign. 1023
  is shown in B, 1024 in KB, \<open>1024\<^sup>2\<close> in MB and \<open>1024\<^sup>3\<close> in GB.
\<close>

theorem bytesToHuman_unit_sign_decimals:
  "bytesToHuman bytes = toFixed (in_unit bytes) 2 @ unit_of bytes \<and>
   (js_lt (js_abs (js_div bytes (Fin (1024 ^ 3)))) (Fin (10 ^ 21)) \<longrightarrow>
      is_signed_decimal 2 (toFixed (in_unit bytes) 2)) \<and>
   (js_lt bytes (Fin 0) \<longrightarrow> (\<exists>rest. bytesToHuman bytes = ''-'' @ rest)) \<and>
   bytesToHuman (Fin 1023) = ''1023.00B'' \<and>
   bytesToHuman (Fin 1024) = ''1.00KB'' \<and>
   bytesToHuman (Fin (1024 * 1024)) = ''1.00MB'' \<and>
   bytesToHuman (Fin (1024 * 1024 * 1024)) = ''1.00GB'' \<and>
   bytesToHuman (Fin (- 1536)) = ''-1.50KB''"
proof (intro conjI impI)
  show "bytesToHuman bytes = toFixed (in_unit bytes) 2 @ unit_of bytes"
    by (rule bytesToHuman_in_unit)
next
  assume "js_lt (js_abs (js_div bytes (Fin (1024 ^ 3)))) (Fin (10 ^ 21))"
  then show "is_signed_decimal 2 (toFixed (in_unit bytes) 2)" by (rule in_unit_decimal)
next
  assume "js_lt bytes (Fin 0)"
  from toFixed_negative [OF in_unit_negative [OF this], of 2]
  show "\<exists>rest. bytesToHuman bytes = ''-'' @ rest"
    by (auto simp: bytesToHuman_in_unit)
next
  show "bytesToHuman (Fin 1023) = ''1023.00B''"
    by (simp add: num_eval str_eval rep_eval cong: let_weak_cong)
  show "bytesToHuman (Fin 1024) = ''1.00KB''"
    by (simp add: num_eval str_eval rep_eval cong: let_weak_cong)
  show "bytesToHuman (Fin (1024 * 1024)) = ''1.00MB''"
    by (simp add: num_eval str_eval rep_eval cong: let_weak_cong)
  show "bytesToHuman (Fin (1024 * 1024 * 1024)) = ''1.00GB''"
    by (simp add: num_eval str_eval rep_eval cong: let_weak_cong)
  show "bytesToHuman (Fin (- 1536)) = ''-1.50KB''"
    by (simp add: num_eval str_eval rep_eval cong: let_weak_cong)
qed

text \<open>
  The statement at -1536 bytes.
\<close>

theorem bytesToHuman_unit_sign_decimals_witness:
  "js_lt (js_abs (js_div (Fin (- 1536)) (Fin (1024 ^ 3)))) (Fin (10 ^ 21)) \<and>
   is_signed_decimal 2 (toFixed (in_unit (Fin (- 1536))) 2) \<and>
   js_lt (Fin (- 1536)) (Fin 0) \<and>
   (\<exists>rest. bytesToHuman (Fin (- 1536)) = ''-'' @ rest)"
proof -
  have a: "js_lt (js_abs (js_div (Fin (- 1536)) (Fin (1024 ^ 3)))) (Fin (10 ^ 21))"
    by (simp add: num_eval cong: let_weak_cong)
  have b: "js_lt (Fin (- 1536)) (Fin 0)" by simp
  from bytesToHuman_unit_sign_decimals [of "Fin (- 1536)"] a b show ?thesis by blast
qed

text \<open>
  C6 as stated ("always prints 2 decimal places") fails: from \<open>10\<^sup>2\<^sup>1\<close> on,
  \<^verbatim>\<open>toFixed\<close> prints its number as \<^verbatim>\<open>toString\<close> does.
\<close>

theorem bytesToHuman_exponent_counterexample:
  "bytesToHuman (Fin (10 ^ 21 * 1024 ^ 3)) = ''1e+21GB'' \<and>
   \<not> is_signed_decimal 2 ''1e+21''"
  by (simp add: num_eval str_eval rep_eval is_signed_decimal_def is_decimal_def is_digit_def
      cong: let_weak_cong)

section \<open>getDiffPercent\<close>

lemma percent_change_not_NaN:
  assumes "js_lt (js_abs (percent_change baseline current)) (Fin (10 ^ 21))"
  shows "baseline \<noteq> NaN" "current \<noteq> NaN"
proof -
  show "baseline \<noteq> NaN"
  proof
    assume "baseline = NaN"
    then have "percent_change baseline current = NaN"
      by (simp add: percent_change_def js_div_def js_mul_def)
    with assms show False by simp
  qed
  show "current \<noteq> NaN"
  proof
    assume "current = NaN"
    then have "percent_change baseline current = NaN"
      by (simp add: percent_change_def js_sub_def js_div_def js_mul_def)
    with assms show False by simp
  qed
qed

text \<open>
  C7, as the source has it. Whenever the computed percentage
  \<open>|current - baseline| / baseline * 100\<close> is a finite number below \<open>10\<^sup>2\<^sup>1\<close> in
  magnitude (so the baseline is not 0), \<^verbatim>\<open>getDiffPercent\<close> is \<^verbatim>\<open>+\<close> when
  \<open>current \<ge> baseline\<close> and \<^verbatim>\<open>-\<close> otherwise, then the percentage with three decimals,
  then \<^verbatim>\<open>%\<close>. \<^verbatim>\<open>getDiffPercent(100, 150)\<close> is \<^verbatim>\<open>+50.000%\<close> and
  \<^verbatim>\<open>getDiffPercent(150, 100)\<close> is \<^verbatim>\<open>-33.333%\<close>.
\<close>

theorem getDiffPercent_finite_percentage:
  "(js_lt (js_abs (percent_change baseline current)) (Fin (10 ^ 21)) \<longrightarrow>
      getDiffPercent baseline current =
        (if js_ge current baseline then ''+'' else ''-'') @
        toFixed (percent_change baseline current) 3 @ ''%'' \<and>
      is_signed_decimal 3 (toFixed (percent_change baseline current) 3)) \<and>
   getDiffPercent (Fin 100) (Fin 150) = ''+50.000%'' \<and>
   getDiffPercent (Fin 150) (Fin 100) = ''-33.333%''"
proof (intro conjI impI)
  assume fin: "js_lt (js_abs (percent_change baseline current)) (Fin (10 ^ 21))"
  from percent_change_not_NaN [OF fin]
  have "js_ge current baseline = (\<not> js_lt current baseline)" by (simp add: js_ge_def)
  then show "getDiffPercent baseline current =
      (if js_ge current baseline then ''+'' else ''-'') @
      toFixed (percent_change baseline current) 3 @ ''%''"
    by (simp add: getDiffPercent_def percent_change_def)
  from fin show "is_signed_decimal 3 (toFixed (percent_change baseline current) 3)"
    by (rule toFixed_decimal) simp
next
  show "getDiffPercent (Fin 100) (Fin 150) = ''+50.000%''"
    by (simp add: num_eval str_eval rep_eval cong: let_weak_cong)
  show "getDiffPercent (Fin 150) (Fin 100) = ''-33.333%''"
    by (simp add: num_eval str_eval rep_eval cong: let_weak_cong)
qed

text \<open>
  The statement at the baseline 150 and the current value 100.
\<close>

theorem getDiffPercent_finite_percentage_witness:
  "js_lt (js_abs (percent_change (Fin 150) (Fin 100))) (Fin (10 ^ 21)) \<and>
   getDiffPercent (Fin 150) (Fin 100) =
     (if js_ge (Fin 100) (Fin 150) then ''+'' else ''-'') @
     toFixed (percent_change (Fin 150) (Fin 100)) 3 @ ''%'' \<and>
   is_signed_decimal 3 (toFixed (percent_change (Fin 150) (Fin 100)) 3)"
proof -
  have a: "js_lt (js_abs (percent_change (Fin 150) (Fin 100))) (Fin (10 ^ 21))"
    by (simp add: percent_change_def num_eval cong: let_weak_cong)
  from getDiffPercent_finite_percentage [of "Fin 150" "Fin 100"] a show ?thesis by blast
qed

text \<open>
  C7 as stated, for every baseline, fails at the baseline 0: the text after the sign is
  \<^verbatim>\<open>Infinity\<close>, which is no number with three decimals.
\<close>

theorem getDiffPercent_zero_baseline_counterexample:
  "getDiffPercent (Fin 0) (Fin 5) = ''+Infinity%'' \<and>
   \<not> is_signed_decimal 3 ''Infinity''"
  by (simp add: num_eval rep_eval is_signed_decimal_def is_decimal_def is_digit_def
      cong: let_weak_cong)

section \<open>secondsToHuman\<close>

lemma js_trunc_floor_nonneg: "0 \<le> r \<Longrightarrow> js_trunc (Fin r) = js_floor (Fin r)"
  by simp

lemma js_div_60_trunc:
  assumes "60 \<le> q"
  shows "js_trunc (js_div (Fin q) (Fin 60)) = js_floor (js_div (Fin q) (Fin 60))"
proof -
  have d: "js_div (Fin q) (Fin 60) = fl False (q / 60)"
    using assms by (simp add: js_div_def)
  have "0 \<le> q / 60" using assms by simp
  from fl_False_cases [OF this] show ?thesis
    unfolding d by (auto simp: js_trunc_floor_nonneg)
qed

lemma js_mod_60_trunc:
  assumes "60 \<le> q"
  shows "js_trunc (js_mod (Fin q) (Fin 60)) = js_floor (js_mod (Fin q) (Fin 60))"
proof -
  define k where "k = \<lfloor>q / 60\<rfloor>"
  define r where "r = q - 60 * of_int k"
  have "of_int k \<le> q / 60" unfolding k_def by (rule of_int_floor_le)
  then have r0: "0 \<le> r" by (simp add: r_def)
  have "js_mod (Fin q) (Fin 60) = (if r = 0 then Fin 0 else Fin r)"
    using assms by (simp add: js_mod_def Let_def r_def k_def signed_zero_def)
  with r0 show ?thesis by (simp add: js_trunc_floor_nonneg)
qed

text \<open>
  C8. For every non-negative Number of seconds (\<open>seconds \<ge> 0\<close>, which excludes NaN):
  below 60, \<^verbatim>\<open>secondsToHuman\<close> is \<^verbatim>\<open>seconds.toFixed(1)\<close>, which is digits, a point and
  one digit, followed by \<^verbatim>\<open>s\<close>; otherwise it is the floor of \<open>seconds / 60\<close>, \<^verbatim>\<open>m\<close>, a
  space, the floor of \<open>seconds % 60\<close> and \<^verbatim>\<open>s\<close> (the source truncates; on these values
  truncating is the floor). \<^verbatim>\<open>secondsToHuman(59.9)\<close> is \<^verbatim>\<open>59.9s\<close> and
  \<^verbatim>\<open>secondsToHuman(125)\<close> is \<^verbatim>\<open>2m 5s\<close>.
\<close>

theorem secondsToHuman_nonnegative:
  assumes "js_ge seconds (Fin 0)"
  shows "(js_lt seconds (Fin 60) \<longrightarrow>
           secondsToHuman seconds = toFixed seconds 1 @ ''s'' \<and>
           is_decimal 1 (toFixed seconds 1)) \<and>
         (\<not> js_lt seconds (Fin 60) \<longrightarrow>
           secondsToHuman seconds =
             numToString (js_floor (js_div seconds (Fin 60))) @ ''m '' @
             numToString (js_floor (js_mod seconds (Fin 60))) @ ''s'') \<and>
         secondsToHuman (js_lit (599 / 10)) = ''59.9s'' \<and>
         secondsToHuman (Fin 125) = ''2m 5s''"
proof (intro conjI impI)
  assume lt: "js_lt seconds (Fin 60)"
  then show "secondsToHuman seconds = toFixed seconds 1 @ ''s''"
    by (simp add: secondsToHuman_def)
  show "is_decimal 1 (toFixed seconds 1)"
  proof (cases seconds)
    case (Fin q)
    with assms lt have "0 \<le> q" "q < 60" by (simp_all add: js_ge_def)
    then have "\<bar>q\<bar> < 10 ^ 21" by simp
    with Fin \<open>0 \<le> q\<close> show ?thesis by (simp add: fixed_digits_decimal)
  next
    case NegZero
    then show ?thesis by (simp add: fixed_digits_decimal)
  qed (use assms lt in \<open>simp_all add: js_ge_def\<close>)
next
  assume ge: "\<not> js_lt seconds (Fin 60)"
  have "js_trunc (js_div seconds (Fin 60)) = js_floor (js_div seconds (Fin 60)) \<and>
        js_trunc (js_mod seconds (Fin 60)) = js_floor (js_mod seconds (Fin 60))"
  proof (cases seconds)
    case (Fin q)
    with ge have "60 \<le> q" by simp
    with Fin show ?thesis by (simp add: js_div_60_trunc js_mod_60_trunc)
  next
    case PosInf
    then show ?thesis by (simp add: js_div_def js_mod_def signed_inf_def)
  qed (use assms ge in \<open>simp_all add: js_ge_def\<close>)
  with ge show "secondsToHuman seconds =
      numToString (js_floor (js_div seconds (Fin 60))) @ ''m '' @
      numToString (js_floor (js_mod seconds (Fin 60))) @ ''s''"
    by (simp add: secondsToHuman_def)
next
  show "secondsToHuman (js_lit (599 / 10)) = ''59.9s''"
    by (simp add: num_eval str_eval rep_eval cong: let_weak_cong)
  show "secondsToHuman (Fin 125) = ''2m 5s''"
    by (simp add: num_eval str_eval rep_eval cong: let_weak_cong)
qed

text \<open>
  The statement at 125 seconds and at half a second.
\<close>

theorem secondsToHuman_nonnegative_witness:
  "js_ge (Fin 125) (Fin 0) \<and> \<not> js_lt (Fin 125) (Fin 60) \<and>
   secondsToHuman (Fin 125) =
     numToString (js_floor (js_div (Fin 125) (Fin 60))) @ ''m '' @
     numToString (js_floor (js_mod (Fin 125) (Fin 60))) @ ''s'' \<and>
   js_ge (Fin (1 / 2)) (Fin 0) \<and> js_lt (Fin (1 / 2)) (Fin 60) \<and>
   secondsToHuman (Fin (1 / 2)) = toFixed (Fin (1 / 2)) 1 @ ''s'' \<and>
   is_decimal 1 (toFixed (Fin (1 / 2)) 1)"
proof -
  have a: "js_ge (Fin 125) (Fin 0)" and b: "js_ge (Fin (1 / 2)) (Fin 0)"
    by (simp_all add: js_ge_def)
  from secondsToHuman_nonnegative [OF a] secondsToHuman_nonnegative [OF b] a b
  show ?thesis by simp
qed

section \<open>The percent cell of the total rows\<close>

lemma createReport_tables:
  "\<exists>pre post.
     createReport env data compareData =
       pre @
       getAnalysisTable env (analysis_results data)
         (case types (analysis_results data) of Some t \<Rightarrow> t
          | None \<Rightarrow> classes (analysis_results data))
         (map_option analysis_results compareData)
         (map_option (\<lambda>c. case types (analysis_results c) of Some t \<Rightarrow> t
                          | None \<Rightarrow> classes (analysis_results c)) compareData)
         (case compareData of None \<Rightarrow> JNull | Some c \<Rightarrow> env_string (GITHUB_BASE_REF env)) @
       NL @
       getDetailsTable env (image_details data)
         (case image_heap_objects_count (image_details data) of
            Some n \<Rightarrow> toLocaleString env n @ '' objects, '' | None \<Rightarrow> [])
         (getDebugInfoLine (image_details data)
            (case debug_info_bytes (image_details data) of Some b \<Rightarrow> b | None \<Rightarrow> Fin 0))
         (other_bytes (image_details data))
         (map_option image_details compareData)
         (case compareData of None \<Rightarrow> JNull | Some c \<Rightarrow> env_string (GITHUB_BASE_REF env))
         (map_option (\<lambda>c. other_bytes (image_details c)) compareData) @
       post"
proof -
  have "createReport env data compareData =
      (getReportHeader (general_info data) (getTotalTime (resource_usage data))
         (github_context env) @ NL @
       getEnvironmentTable (getVersionLine (general_info data)) (getGraalLine (general_info data))
         (general_info data) @ NL) @
       getAnalysisTable env (analysis_results data)
         (case types (analysis_results data) of Some t \<Rightarrow> t
          | None \<Rightarrow> classes (analysis_results data))
         (map_option analysis_results compareData)
         (map_option (\<lambda>c. case types (analysis_results c) of Some t \<Rightarrow> t
                          | None \<Rightarrow> classes (analysis_results c)) compareData)
         (case compareData of None \<Rightarrow> JNull | Some c \<Rightarrow> env_string (GITHUB_BASE_REF env)) @
       NL @
      getDetailsTable env (image_details data)
        (case image_heap_objects_count (image_details data) of
           Some n \<Rightarrow> toLocaleString env n @ '' objects, '' | None \<Rightarrow> [])
        (getDebugInfoLine (image_details data)
           (case debug_info_bytes (image_details data) of Some b \<Rightarrow> b | None \<Rightarrow> Fin 0))
        (other_bytes (image_details data)) (map_option image_details compareData)
        (case compareData of None \<Rightarrow> JNull | Some c \<Rightarrow> env_string (GITHUB_BASE_REF env))
        (map_option (\<lambda>c. other_bytes (image_details c)) compareData) @
      (NL @
       getResourceUsageTable (resource_usage data) (getTotalTimeRatio (resource_usage data))
         (map_option resource_usage compareData)
         (case compareData of None \<Rightarrow> JNull | Some c \<Rightarrow> env_string (GITHUB_BASE_REF env)) @ NL @
       getFooter)"
    by (cases compareData) (simp_all add: createReport_def Let_def other_bytes_def)
  then show ?thesis by blast
qed

text \<open>
  C10. The Analysis Results table is its head, the rows Reachable, Reflection, JNI and
  Loaded, and its end; the Image Details table is its head, the rows Code area and Image
  heap, the Debug info row when the snapshot has debug info, the rows Other data and
  Total, and its end; \<^verbatim>\<open>createReport\<close> prints both tables, in and outside comparison
  mode. The percent cells of the Loaded row and the percent cell of the Total row are the
  text \<^verbatim>\<open>100.000%\<close>, whatever the data; the percent cell of every other row is
  \<^verbatim>\<open>toPercent\<close> of its count and the category's total, or of its bytes and
  \<^verbatim>\<open>total_bytes\<close>. With totals of 0 the tables still read \<^verbatim>\<open>100.000%\<close> in the Loaded
  and Total rows, while the cells that divide by the total read \<^verbatim>\<open>Infinity%\<close> or
  \<^verbatim>\<open>-Infinity%\<close>.
\<close>

theorem total_rows_percent_literal:
  \<open>getAnalysisTable env analysis analysisTypes compareAnalysis compareAnalysisType
       compareBranch =
     getAnalysisTable_head compareBranch @
     analysis_row (table_link ''#glossary-reachability'' ''Reachable'')
       (toLocaleString env (reachable analysisTypes),
        toPercent (reachable analysisTypes) (total' analysisTypes),
        (case compareAnalysisType of None \<Rightarrow> []
          | Some c \<Rightarrow> getCompareColumn (reachable analysisTypes) (Some (reachable c))
          (Fin 98) (Fin 108) True))
       (toLocaleString env (reachable (fields' analysis)),
        toPercent (reachable (fields' analysis)) (total' (fields' analysis)),
        (case compareAnalysis of None \<Rightarrow> []
          | Some c \<Rightarrow> getCompareColumn (reachable (fields' analysis)) (Some (reachable (fields' c)))
          (Fin 98) (Fin 108) True))
       (toLocaleString env (reachable (methods analysis)),
        toPercent (reachable (methods analysis)) (total' (methods analysis)),
        (case compareAnalysis of None \<Rightarrow> []
          | Some c \<Rightarrow> getCompareColumn (reachable (methods analysis)) (Some (reachable (methods c)))
          (Fin 98) (Fin 108) True)) @ NL @
     analysis_row (table_link ''#glossary-reflection-registrations'' ''Reflection'')
       (toLocaleString env (reflection analysisTypes),
        toPercent (reflection analysisTypes) (total' analysisTypes),
        (case compareAnalysisType of None \<Rightarrow> []
          | Some c \<Rightarrow> getCompareColumn (reflection analysisTypes) (Some (reflection c))
          (Fin 98) (Fin 108) True))
       (toLocaleString env (reflection (fields' analysis)),
        toPercent (reflection (fields' analysis)) (total' (fields' analysis)),
        (case compareAnalysis of None \<Rightarrow> []
          | Some c \<Rightarrow> getCompareColumn (reflection (fields' analysis))
          (Some (reflection (fields' c))) (Fin 98) (Fin 108) True))
       (toLocaleString env (reflection (methods analysis)),
        toPercent (reflection (methods analysis)) (total' (methods analysis)),
        (case compareAnalysis of None \<Rightarrow> []
          | Some c \<Rightarrow> getCompareColumn (reflection (methods analysis))
          (Some (reflection (methods c))) (Fin 98) (Fin 108) True)) @ NL @
     analysis_row (table_link ''#glossary-jni-access-registrations'' ''JNI'')
       (toLocaleString env (jni analysisTypes),
        toPercent (jni analysisTypes) (total' analysisTypes),
        (case compareAnalysisType of None \<Rightarrow> []
          | Some c \<Rightarrow> getCompareColumn (jni analysisTypes) (Some (jni c)) (Fin 98) (Fin 108) True))
       (toLocaleString env (jni (fields' analysis)),
        toPercent (jni (fields' analysis)) (total' (fields' analysis)),
        (case compareAnalysis of None \<Rightarrow> []
          | Some c \<Rightarrow> getCompareColumn (jni (fields' analysis)) (Some (jni (fields' c)))
          (Fin 98) (Fin 108) True))
       (toLocaleString env (jni (methods analysis)),
        toPercent (jni (methods analysis)) (total' (methods analysis)),
        (case compareAnalysis of None \<Rightarrow> []
          | Some c \<Rightarrow> getCompareColumn (jni (methods analysis)) (Some (jni (methods c)))
          (Fin 98) (Fin 108) True)) @ NL @
     analysis_row (table_link ''#glossary-reachability'' ''Loaded'')
       (toLocaleString env (total' analysisTypes),
        ''100.000%'',
        (case compareAnalysisType of None \<Rightarrow> []
          | Some c \<Rightarrow> getCompareColumn (total' analysisTypes) (Some (total' c)) (Fin 98) (Fin 108) True))
       (toLocaleString env (total' (fields' analysis)),
        ''100.000%'',
        (case compareAnalysis of None \<Rightarrow> []
          | Some c \<Rightarrow> getCompareColumn (total' (fields' analysis)) (Some (total' (fields' c)))
          (Fin 98) (Fin 108) True))
       (toLocaleString env (total' (methods analysis)),
        ''100.000%'',
        (case compareAnalysis of None \<Rightarrow> []
          | Some c \<Rightarrow> getCompareColumn (total' (methods analysis)) (Some (total' (methods c)))
          (Fin 98) (Fin 108) True)) @ NL @
     getAnalysisTable_end \<and>
   getDetailsTable env details objectCount debugInfoLine otherBytes compareDetails compareBranch
       compareOtherBytes =
     getDetailsTable_head compareBranch @
     details_row (table_link ''#glossary-code-area'' ''Code area'')
       (bytesToHuman (code_area_bytes details))
       (toPercent (code_area_bytes details) (total_bytes details))
       (case compareDetails of None \<Rightarrow> []
        | Some c \<Rightarrow> getCompareColumnBytes (code_area_bytes details) (Some (code_area_bytes c))
            (Fin 98) (Fin 110) True)
       (toLocaleString env (code_area_compilation_units details) @ '' compilation units'') @ NL @
     details_row (table_link ''#glossary-image-heap'' ''Image heap'')
       (bytesToHuman (image_heap_bytes details))
       (toPercent (image_heap_bytes details) (total_bytes details))
       (case compareDetails of None \<Rightarrow> []
        | Some c \<Rightarrow> getCompareColumnBytes (image_heap_bytes details) (Some (image_heap_bytes c))
            (Fin 98) (Fin 110) True)
       (objectCount @ bytesToHuman (image_heap_resources_bytes details) @ '' for '' @
        toLocaleString env (image_heap_resources_count details) @ '' resources'') @
     debugInfoLine @ NL @
     details_row (table_link ''#glossary-other-data'' ''Other data'')
       (bytesToHuman otherBytes) (toPercent otherBytes (total_bytes details))
       (case compareOtherBytes of None \<Rightarrow> []
        | Some c \<Rightarrow> getCompareColumnBytes otherBytes (Some c) (Fin 98) (Fin 110) True)
       [] @ NL @
     details_row ''Total'' (''<strong>'' @ bytesToHuman (total_bytes details) @ ''</strong>'')
       ''100.000%''
       (case compareDetails of None \<Rightarrow> []
        | Some c \<Rightarrow> getCompareColumnBytes (total_bytes details) (Some (total_bytes c))
            (Fin 98) (Fin 110) True)
       [] @ NL @
     getDetailsTable_end \<and>
   getDebugInfoLine details debugInfoBytes =
     (if debug_info_bytes details \<noteq> None
      then NL @ details_row (table_link ''#glossary-debug-info'' ''Debug info'')
             (bytesToHuman debugInfoBytes) (toPercent debugInfoBytes (total_bytes details)) [] []
      else []) \<and>
   (\<exists>pre post.
      createReport env data compareData =
        pre @
        getAnalysisTable env (analysis_results data)
          (case types (analysis_results data) of Some t \<Rightarrow> t
           | None \<Rightarrow> classes (analysis_results data))
          (map_option analysis_results compareData)
          (map_option (\<lambda>c. case types (analysis_results c) of Some t \<Rightarrow> t
                           | None \<Rightarrow> classes (analysis_results c)) compareData)
          (case compareData of None \<Rightarrow> JNull | Some c \<Rightarrow> env_string (GITHUB_BASE_REF env)) @
        NL @
        getDetailsTable env (image_details data)
          (case image_heap_objects_count (image_details data) of
             Some n \<Rightarrow> toLocaleString env n @ '' objects, '' | None \<Rightarrow> [])
          (getDebugInfoLine (image_details data)
             (case debug_info_bytes (image_details data) of Some b \<Rightarrow> b | None \<Rightarrow> Fin 0))
          (other_bytes (image_details data))
          (map_option image_details compareData)
          (case compareData of None \<Rightarrow> JNull | Some c \<Rightarrow> env_string (GITHUB_BASE_REF env))
          (map_option (\<lambda>c. other_bytes (image_details c)) compareData) @
        post) \<and>
   getAnalysisTable (pr_env []) no_counts (counts 0) None None JNull =
     getAnalysisTable_head JNull @
     analysis_row (table_link ''#glossary-reachability'' ''Reachable'')
       (''5'', ''Infinity%'', []) (''5'', ''Infinity%'', []) (''5'', ''Infinity%'', []) @ NL @
     analysis_row (table_link ''#glossary-reflection-registrations'' ''Reflection'')
       (''1'', ''Infinity%'', []) (''1'', ''Infinity%'', []) (''1'', ''Infinity%'', []) @ NL @
     analysis_row (table_link ''#glossary-jni-access-registrations'' ''JNI'')
       (''1'', ''Infinity%'', []) (''1'', ''Infinity%'', []) (''1'', ''Infinity%'', []) @ NL @
     analysis_row (table_link ''#glossary-reachability'' ''Loaded'')
       (''0'', ''100.000%'', []) (''0'', ''100.000%'', []) (''0'', ''100.000%'', []) @ NL @
     getAnalysisTable_end \<and>
   getDetailsTable (pr_env []) (image_details (snapshot (Fin 0) None None)) [] []
       (other_bytes (image_details (snapshot (Fin 0) None None))) None JNull None =
     getDetailsTable_head JNull @
     details_row (table_link ''#glossary-code-area'' ''Code area'')
       ''400.00B'' ''Infinity%'' [] ''7 compilation units'' @ NL @
     details_row (table_link ''#glossary-image-heap'' ''Image heap'')
       ''300.00B'' ''Infinity%'' [] ''16.00B for 2 resources'' @ NL @
     details_row (table_link ''#glossary-other-data'' ''Other data'')
       ''-700.00B'' ''-Infinity%'' [] [] @ NL @
     details_row ''Total'' ''<strong>0.00B</strong>'' ''100.000%'' [] [] @ NL @
     getDetailsTable_end\<close>
proof -
  have n: "show_pos 5 = ''5''" "show_pos 1 = ''1''" "show_pos 7 = ''7''" "show_pos 2 = ''2''"
    by (simp_all add: num_eval str_eval cong: let_weak_cong)
  have b: "bytesToHuman (Fin 0) = ''0.00B''" "bytesToHuman (Fin 400) = ''400.00B''"
    "bytesToHuman (Fin 300) = ''300.00B''" "bytesToHuman (Fin 16) = ''16.00B''"
    "bytesToHuman (Fin (- 700)) = ''-700.00B''"
    by (simp_all add: num_eval str_eval rep_eval cong: let_weak_cong)
  have i: "toPercent (Fin 5) (Fin 0) = ''Infinity%''" "toPercent (Fin 1) (Fin 0) = ''Infinity%''"
    "toPercent (Fin 400) (Fin 0) = ''Infinity%''" "toPercent (Fin 300) (Fin 0) = ''Infinity%''"
    "toPercent (Fin (- 700)) (Fin 0) = ''-Infinity%''"
    by (simp_all add: num_eval rep_eval cong: let_weak_cong)
  have o: "other_bytes (image_details (snapshot (Fin 0) None None)) = Fin (- 700)"
    by (simp add: other_bytes_def snapshot_def num_eval cong: let_weak_cong)
  have t1: "getAnalysisTable (pr_env []) no_counts (counts 0) None None JNull =
     getAnalysisTable_head JNull @
     analysis_row (table_link ''#glossary-reachability'' ''Reachable'')
       (''5'', ''Infinity%'', []) (''5'', ''Infinity%'', []) (''5'', ''Infinity%'', []) @ NL @
     analysis_row (table_link ''#glossary-reflection-registrations'' ''Reflection'')
       (''1'', ''Infinity%'', []) (''1'', ''Infinity%'', []) (''1'', ''Infinity%'', []) @ NL @
     analysis_row (table_link ''#glossary-jni-access-registrations'' ''JNI'')
       (''1'', ''Infinity%'', []) (''1'', ''Infinity%'', []) (''1'', ''Infinity%'', []) @ NL @
     analysis_row (table_link ''#glossary-reachability'' ''Loaded'')
       (''0'', ''100.000%'', []) (''0'', ''100.000%'', []) (''0'', ''100.000%'', []) @ NL @
     getAnalysisTable_end"
    by (simp add: getAnalysisTable_def analysis_rows n i pr_env_def no_counts_def counts_def)
  have t2: "getDetailsTable (pr_env []) (image_details (snapshot (Fin 0) None None)) [] []
       (other_bytes (image_details (snapshot (Fin 0) None None))) None JNull None =
     getDetailsTable_head JNull @
     details_row (table_link ''#glossary-code-area'' ''Code area'')
       ''400.00B'' ''Infinity%'' [] ''7 compilation units'' @ NL @
     details_row (table_link ''#glossary-image-heap'' ''Image heap'')
       ''300.00B'' ''Infinity%'' [] ''16.00B for 2 resources'' @ NL @
     details_row (table_link ''#glossary-other-data'' ''Other data'')
       ''-700.00B'' ''-Infinity%'' [] [] @ NL @
     details_row ''Total'' ''<strong>0.00B</strong>'' ''100.000%'' [] [] @ NL @
     getDetailsTable_end"
    unfolding o by (simp add: getDetailsTable_def details_rows n b i pr_env_def snapshot_def)
  have d: "getDebugInfoLine details debugInfoBytes =
     (if debug_info_bytes details \<noteq> None
      then NL @ details_row (table_link ''#glossary-debug-info'' ''Debug info'')
             (bytesToHuman debugInfoBytes) (toPercent debugInfoBytes (total_bytes details)) [] []
      else [])"
    by (simp add: row_defs)
  show ?thesis
    unfolding t1 t2
    by (intro conjI refl createReport_tables d)
      (simp_all add: getAnalysisTable_def getDetailsTable_def analysis_rows details_rows)
qed

end
